theory Spec2Isabelle
  imports Complex_Main "HOL-Library.Word"
begin

section \<open>Strings\<close>

text \<open>
  The worker is TypeScript: its strings are sequences of 16-bit code units. The secrets of
  \<open>EnvBindings\<close> can hold any such string, and \<open>btoa\<close> tells code units above 255 from
  the others, so a string is a list of 16-bit words and not a list of 8-bit \<open>char\<close>s.
  \<open>str\<close> writes an ASCII literal of the source as code units.
\<close>

type_synonym code_unit = "16 word"
type_synonym jsstring = "code_unit list"

definition str :: "string \<Rightarrow> jsstring" where
  "str s = map of_char s"

text \<open>The alarm sign U+1F6A8 of the two channel bodies, as its surrogate pair.\<close>

definition siren :: jsstring where
  "siren = [0xD83D, 0xDEA8]"

text \<open>
  \<open>s.substring(a, b)\<close> and \<open>s.substring(a)\<close> for non-negative integer arguments: both
  are clamped to the length of \<open>s\<close> (and swapped when \<open>a > b\<close>), which is what
  \<open>take\<close> and \<open>drop\<close> do.
\<close>

definition substring :: "jsstring \<Rightarrow> nat \<Rightarrow> nat \<Rightarrow> jsstring" where
  "substring s a b = take (max a b - min a b) (drop (min a b) s)"

definition substring_from :: "jsstring \<Rightarrow> nat \<Rightarrow> jsstring" where
  "substring_from s a = drop a s"

text \<open>Errors thrown by the runtime, as values.\<close>

datatype js_error = RangeError | InvalidCharacterError | TypeError jsstring

section \<open>Numbers\<close>

text \<open>
  A Number is an IEEE 754 binary64 value: NaN, an infinity with its sign, or a finite value
  with its sign and its magnitude, a non-negative rational (so that \<open>Finite True 0\<close> is
  the negative zero). The first component is the sign bit: \<open>True\<close> is negative.
\<close>

datatype number = NaN | Infinity bool | Finite bool rat

definition pow2 :: "int \<Rightarrow> rat" where
  "pow2 e = (if 0 \<le> e then 2 ^ nat e else 1 / 2 ^ nat (- e))"

definition pow10 :: "int \<Rightarrow> rat" where
  "pow10 e = (if 0 \<le> e then 10 ^ nat e else 1 / 10 ^ nat (- e))"

function bit_length :: "int \<Rightarrow> nat" where
  "bit_length n = (if n \<le> 0 then 0 else Suc (bit_length (n div 2)))"
  by pat_completeness auto
termination
  by (relation "measure nat") auto

declare bit_length.simps [simp del]

text \<open>For \<open>q > 0\<close>, the \<open>e\<close> with \<open>2 ^ e \<le> q < 2 ^ (e + 1)\<close>.\<close>

definition floor_log2 :: "rat \<Rightarrow> int" where
  "floor_log2 q =
     (let (a, b) = quotient_of q;
          d = int (bit_length a) - int (bit_length b)
      in if pow2 d \<le> q then d else d - 1)"

definition round_half_even :: "rat \<Rightarrow> int" where
  "round_half_even r =
     (let f = \<lfloor>r\<rfloor>; d = r - of_int f
      in if d < 1 / 2 then f
         else if 1 / 2 < d then f + 1
         else if even f then f else f + 1)"

text \<open>
  Rounding of a non-negative real to binary64, to nearest with ties to even: 53 significant
  bits, the unit in the last place never below \<open>2 ^ -1074\<close> (the subnormals), and
  \<open>None\<close>, the overflow to an infinity, when the rounded value reaches \<open>2 ^ 1024\<close>.
  With \<open>e\<close> the binary exponent of \<open>q\<close>, the rounded value \<open>m * 2 ^ p\<close> reaches
  \<open>2 ^ 1024\<close> exactly when \<open>e \<ge> 1024\<close>, or \<open>e = 1023\<close> and the significand was
  rounded up to \<open>2 ^ 53\<close>.
\<close>

definition round_magnitude :: "rat \<Rightarrow> rat option" where
  "round_magnitude q =
     (if q = 0 then Some 0
      else let e = floor_log2 q in
        if 1024 \<le> e then None
        else let p = max (e - 52) (- 1074);
                 m = round_half_even (q / pow2 p)
             in if e = 1023 \<and> m = 2 ^ 53 then None else Some (of_int m * pow2 p))"

definition to_number :: "bool \<Rightarrow> rat \<Rightarrow> number" where
  "to_number neg q =
     (case round_magnitude q of None \<Rightarrow> Infinity neg | Some v \<Rightarrow> Finite neg v)"

text \<open>The value of a finite number with sign \<open>s\<close> and magnitude \<open>a\<close>.\<close>

definition signed :: "bool \<Rightarrow> rat \<Rightarrow> rat" where
  "signed s a = (if s then - a else a)"

text \<open>The operators \<open>/\<close>, \<open>*\<close>, \<open>>\<close> and \<open>===\<close> on Numbers.\<close>

fun js_div :: "number \<Rightarrow> number \<Rightarrow> number" where
  "js_div NaN y = NaN"
| "js_div x NaN = NaN"
| "js_div (Infinity s) (Infinity t) = NaN"
| "js_div (Infinity s) (Finite t b) = Infinity (s \<noteq> t)"
| "js_div (Finite s a) (Infinity t) = Finite (s \<noteq> t) 0"
| "js_div (Finite s a) (Finite t b) =
     (if b = 0 then (if a = 0 then NaN else Infinity (s \<noteq> t))
      else to_number (s \<noteq> t) (a / b))"

fun js_mul :: "number \<Rightarrow> number \<Rightarrow> number" where
  "js_mul NaN y = NaN"
| "js_mul x NaN = NaN"
| "js_mul (Infinity s) (Infinity t) = Infinity (s \<noteq> t)"
| "js_mul (Infinity s) (Finite t b) = (if b = 0 then NaN else Infinity (s \<noteq> t))"
| "js_mul (Finite s a) (Infinity t) = (if a = 0 then NaN else Infinity (s \<noteq> t))"
| "js_mul (Finite s a) (Finite t b) = to_number (s \<noteq> t) (a * b)"

fun js_gt :: "number \<Rightarrow> number \<Rightarrow> bool" where
  "js_gt NaN y = False"
| "js_gt x NaN = False"
| "js_gt (Infinity s) (Infinity t) = (\<not> s \<and> t)"
| "js_gt (Infinity s) (Finite t b) = (\<not> s)"
| "js_gt (Finite s a) (Infinity t) = t"
| "js_gt (Finite s a) (Finite t b) = (signed t b < signed s a)"

fun strict_equals :: "number \<Rightarrow> number \<Rightarrow> bool" where
  "strict_equals NaN y = False"
| "strict_equals x NaN = False"
| "strict_equals (Infinity s) (Infinity t) = (s = t)"
| "strict_equals (Infinity s) (Finite t b) = False"
| "strict_equals (Finite s a) (Infinity t) = False"
| "strict_equals (Finite s a) (Finite t b) = (signed s a = signed t b)"

section \<open>parseFloat\<close>

text \<open>
  \<open>parseFloat\<close> drops leading white space and line terminators, takes the longest prefix of
  the rest that is a decimal literal (a sign, then \<open>Infinity\<close> or digits with an optional
  fraction and exponent), and rounds its value to a Number; with no such prefix it is NaN.
  What follows the prefix is ignored. The parsers below return the rest of the input next to
  the value.
\<close>

definition is_white_space :: "code_unit \<Rightarrow> bool" where
  "is_white_space c =
     (c \<in> set [0x09, 0x0A, 0x0B, 0x0C, 0x0D, 0x20, 0xA0, 0x1680, 0x2028, 0x2029, 0x202F,
               0x205F, 0x3000, 0xFEFF]
      \<or> (0x2000 \<le> c \<and> c \<le> 0x200A))"

definition is_digit :: "code_unit \<Rightarrow> bool" where
  "is_digit c = (0x30 \<le> c \<and> c \<le> 0x39)"

definition digit_value :: "code_unit \<Rightarrow> int" where
  "digit_value c = uint c - 48"

definition digits_value :: "jsstring \<Rightarrow> int" where
  "digits_value ds = foldl (\<lambda>n c. 10 * n + digit_value c) 0 ds"

text \<open>An optional sign: whether it is a minus, and the rest.\<close>

definition sign_part :: "jsstring \<Rightarrow> bool \<times> jsstring" where
  "sign_part s =
     (case s of
        [] \<Rightarrow> (False, s)
      | c # t \<Rightarrow> if c = 0x2D then (True, t) else if c = 0x2B then (False, t) else (False, s))"

text \<open>
  An optional exponent part, \<open>e\<close> or \<open>E\<close>, an optional sign and at least one digit: the
  exponent and the rest, or 0 and the whole input when there is none.
\<close>

definition exponent_part :: "jsstring \<Rightarrow> int \<times> jsstring" where
  "exponent_part s =
     (case s of
        [] \<Rightarrow> (0, s)
      | c # t \<Rightarrow>
          if c = 0x65 \<or> c = 0x45 then
            (let (neg, r) = sign_part t; ds = takeWhile is_digit r
             in if ds = [] then (0, s)
                else (if neg then - digits_value ds else digits_value ds,
                      dropWhile is_digit r))
          else (0, s))"

definition unsigned_decimal :: "jsstring \<Rightarrow> (rat \<times> jsstring) option" where
  "unsigned_decimal s =
     (let ip = takeWhile is_digit s; r1 = dropWhile is_digit s;
          (fp, r2) = (case r1 of
                        [] \<Rightarrow> ([], r1)
                      | c # t \<Rightarrow> if c = 0x2E then (takeWhile is_digit t, dropWhile is_digit t)
                                 else ([], r1))
      in if ip = [] \<and> fp = [] then None
         else let (e, r3) = exponent_part r2
              in Some (of_int (digits_value (ip @ fp)) * pow10 (e - int (length fp)), r3))"

definition str_decimal_literal :: "jsstring \<Rightarrow> (number \<times> jsstring) option" where
  "str_decimal_literal s =
     (let (neg, u) = sign_part s
      in if take 8 u = str ''Infinity'' then Some (Infinity neg, drop 8 u)
         else case unsigned_decimal u of
                None \<Rightarrow> None
              | Some (q, r) \<Rightarrow> Some (to_number neg q, r))"

definition parseFloat :: "jsstring \<Rightarrow> number" where
  "parseFloat s =
     (case str_decimal_literal (dropWhile is_white_space s) of
        None \<Rightarrow> NaN
      | Some (x, r) \<Rightarrow> x)"

section \<open>toFixed\<close>

text \<open>The decimal digits of an integer \<open>n \<ge> 0\<close>.\<close>

function decimal_digits :: "int \<Rightarrow> jsstring" where
  "decimal_digits n =
     (if n < 10 then [of_int (48 + n)]
      else decimal_digits (n div 10) @ [of_int (48 + n mod 10)])"
  by pat_completeness auto
termination
  by (relation "measure nat") auto

declare decimal_digits.simps [simp del]

text \<open>
  The digits of \<open>Number::toString\<close> for a finite value \<open>x \<ge> 10 ^ 21\<close>, the only finite
  values on which \<open>toFixed\<close> calls it: the shortest decimal significand \<open>s\<close> of \<open>k\<close>
  digits such that \<open>s * 10 ^ (n - k)\<close> rounds to \<open>x\<close>, the closest one where several do,
  written in exponent notation. \<open>candidates x k\<close> lists the pairs \<open>(s, n)\<close> of \<open>k\<close> digits.
\<close>

definition candidates :: "rat \<Rightarrow> nat \<Rightarrow> (int \<times> nat) list" where
  "candidates x k =
     (let d = length (decimal_digits \<lfloor>x\<rfloor>)
      in [(s, n). n \<leftarrow> [d, d + 1],
                  s \<leftarrow> [\<lfloor>x / 10 ^ (n - k)\<rfloor>, \<lfloor>x / 10 ^ (n - k)\<rfloor> + 1],
                  10 ^ (k - 1) \<le> s \<and> s < 10 ^ k
                    \<and> round_magnitude (of_int s * 10 ^ (n - k)) = Some x])"

definition closer :: "rat \<Rightarrow> nat \<Rightarrow> (int \<times> nat) \<Rightarrow> (int \<times> nat) \<Rightarrow> (int \<times> nat)" where
  "closer x k c1 c2 =
     (let e1 = \<bar>of_int (fst c1) * 10 ^ (snd c1 - k) - x\<bar>;
          e2 = \<bar>of_int (fst c2) * 10 ^ (snd c2 - k) - x\<bar>
      in if e2 < e1 \<or> (e2 = e1 \<and> even (fst c2) \<and> odd (fst c1)) then c2 else c1)"

definition exponent_notation :: "int \<times> nat \<Rightarrow> jsstring" where
  "exponent_notation c =
     (let ds = decimal_digits (fst c); e = str ''e+'' @ decimal_digits (int (snd c) - 1)
      in if length ds = 1 then ds @ e else take 1 ds @ str ''.'' @ drop 1 ds @ e)"

definition to_string_large :: "rat \<Rightarrow> jsstring" where
  "to_string_large x =
     (case find (\<lambda>k. candidates x k \<noteq> []) [1 ..< 18] of
        None \<Rightarrow> exponent_notation (\<lfloor>x\<rfloor>, length (decimal_digits \<lfloor>x\<rfloor>))
      | Some k \<Rightarrow> exponent_notation (foldl (closer x k) (hd (candidates x k)) (candidates x k)))"

text \<open>
  The digits of \<open>toFixed\<close> for a magnitude below \<open>10 ^ 21\<close>: the integer \<open>n\<close> with
  \<open>n / 10 ^ f\<close> closest to \<open>a\<close> (the larger of two), padded with zeros to more than
  \<open>f\<close> digits, and a point before the last \<open>f\<close> of them.
\<close>

definition fixed_digits :: "rat \<Rightarrow> nat \<Rightarrow> jsstring" where
  "fixed_digits a f =
     (let n = \<lfloor>a * 10 ^ f + 1 / 2\<rfloor>;
          m = decimal_digits n;
          m' = (if length m \<le> f then replicate (f + 1 - length m) 0x30 @ m else m)
      in if f = 0 then m
         else take (length m' - f) m' @ str ''.'' @ drop (length m' - f) m')"

definition toFixed :: "number \<Rightarrow> nat \<Rightarrow> js_error + jsstring" where
  "toFixed x f =
     (if 100 < f then Inl RangeError
      else Inr (case x of
                  NaN \<Rightarrow> str ''NaN''
                | Infinity s \<Rightarrow> (if s then str ''-Infinity'' else str ''Infinity'')
                | Finite s a \<Rightarrow>
                    (if s \<and> a \<noteq> 0 then str ''-'' else [])
                    @ (if 10 ^ 21 \<le> a then to_string_large a else fixed_digits a f)))"

section \<open>Configuration and positions\<close>

text \<open>
  The bindings of the worker. A secret that was never set is \<open>undefined\<close> at run time,
  whatever the interface declares: \<open>None\<close>. \<open>truthy\<close> is the test \<open>!!v\<close> (and the
  negation of \<open>!v\<close>); \<open>to_string\<close> is the conversion of a binding inside a template
  literal or as a form value.
\<close>

record EnvBindings =
  TELEGRAM_BOT_TOKEN :: "jsstring option"
  TELEGRAM_CHAT_ID :: "jsstring option"
  TWILIO_ACCOUNT_SID :: "jsstring option"
  TWILIO_AUTH_TOKEN :: "jsstring option"
  TWILIO_MESSAGING_SERVICE_SID :: "jsstring option"
  TWILIO_TO_NUMBER :: "jsstring option"

definition truthy :: "jsstring option \<Rightarrow> bool" where
  "truthy v = (case v of None \<Rightarrow> False | Some s \<Rightarrow> s \<noteq> [])"

definition to_string :: "jsstring option \<Rightarrow> jsstring" where
  "to_string v = (case v of None \<Rightarrow> str ''undefined'' | Some s \<Rightarrow> s)"

record AaveUser =
  id' :: jsstring
  totalCollateralBase :: jsstring
  totalDebtBase :: jsstring

definition mockUsers :: "AaveUser list" where
  "mockUsers =
     [\<lparr>id' = str ''0x1234567890abcdef1234567890abcdef12345678'',
       totalCollateralBase = str ''1000000'', totalDebtBase = str ''900000''\<rparr>,
      \<lparr>id' = str ''0xabcdef1234567890abcdef1234567890abcdef12'',
       totalCollateralBase = str ''500000'', totalDebtBase = str ''450000''\<rparr>]"

section \<open>Console, requests and promises\<close>

text \<open>
  What the worker does to the outside: calls of \<open>console.log\<close>, \<open>console.warn\<close> and
  \<open>console.error\<close> (the last with its second argument, a text or a caught error), and
  requests handed to \<open>fetch\<close>. A JSON body is kept as the fields of the object given to
  \<open>JSON.stringify\<close>, a form body as the pairs appended to the \<open>URLSearchParams\<close>; their
  serialisation is the runtime's.
\<close>

datatype log_arg = Text jsstring | Thrown js_error

datatype console_call = Log jsstring | Warn jsstring | Error jsstring log_arg

datatype body = Json "(jsstring \<times> jsstring) list" | Form "(jsstring \<times> jsstring) list"

record request =
  req_url :: jsstring
  req_method :: jsstring
  req_headers :: "(jsstring \<times> jsstring) list"
  req_body :: body

text \<open>
  The provider's side of one \<open>fetch\<close>: the time at which the exchange is over, and its
  outcome, a rejection of \<open>fetch\<close> or a response with its status and the outcome of reading
  its body with \<open>response.text()\<close>. Time is logical: the pipeline starts at 0.
\<close>

record response =
  resp_status :: nat
  resp_text :: "js_error + jsstring"

definition ok :: "response \<Rightarrow> bool" where
  "ok r = (200 \<le> resp_status r \<and> resp_status r \<le> 299)"

record reply =
  arrives_at :: nat
  outcome :: "js_error + response"

text \<open>
  The promise returned by one call of a sender, with what the call did: its console calls,
  the requests it issued, whether it was fulfilled (\<open>Inr ()\<close>) or rejected, and when.
\<close>

record promise =
  logged :: "console_call list"
  fetched :: "request list"
  settled :: "js_error + unit"
  settled_at :: nat

section \<open>The senders\<close>

definition sendTelegramAlert :: "EnvBindings \<Rightarrow> jsstring \<Rightarrow> reply \<Rightarrow> promise" where
  "sendTelegramAlert env text' rp =
     (if \<not> truthy (TELEGRAM_BOT_TOKEN env) \<or> \<not> truthy (TELEGRAM_CHAT_ID env) then
        \<lparr>logged = [Warn (str ''[Telegram] '' @ [0x26A0, 0xFE0F]
                          @ str '' Missing TELEGRAM_BOT_TOKEN or TELEGRAM_CHAT_ID'')],
         fetched = [], settled = Inr (), settled_at = 0\<rparr>
      else
        let url = str ''https://api.telegram.org/bot'' @ to_string (TELEGRAM_BOT_TOKEN env)
                  @ str ''/sendMessage'';
            req = \<lparr>req_url = url, req_method = str ''POST'',
                   req_headers = [(str ''Content-Type'', str ''application/json'')],
                   req_body = Json [(str ''chat_id'', to_string (TELEGRAM_CHAT_ID env)),
                                    (str ''text'', siren @ str '' '' @ text'),
                                    (str ''parse_mode'', str ''HTML'')]\<rparr>
        in \<lparr>logged =
              (case outcome rp of
                 Inl e \<Rightarrow> [Error (str ''[Telegram] Error:'') (Thrown e)]
               | Inr r \<Rightarrow>
                   if ok r then
                     [Log (str ''[Telegram] '' @ [0x2705] @ str '' Alert sent successfully'')]
                   else
                     (case resp_text r of
                        Inl e \<Rightarrow> [Error (str ''[Telegram] Error:'') (Thrown e)]
                      | Inr errorData \<Rightarrow>
                          [Error (str ''[Telegram] '' @ [0x274C] @ str '' Failed to send:'')
                             (Text errorData)])),
            fetched = [req], settled = Inr (), settled_at = arrives_at rp\<rparr>)"

text \<open>
  \<open>btoa\<close> throws an \<open>InvalidCharacterError\<close> when a code unit of its argument is above
  255, and otherwise encodes the bytes in base64.
\<close>

definition base64_char :: "int \<Rightarrow> code_unit" where
  "base64_char n =
     (if n < 26 then of_int (65 + n)
      else if n < 52 then of_int (97 + (n - 26))
      else if n < 62 then of_int (48 + (n - 52))
      else if n = 62 then 0x2B else 0x2F)"

fun base64 :: "int list \<Rightarrow> jsstring" where
  "base64 [] = []"
| "base64 [a] = [base64_char (a div 4), base64_char (a mod 4 * 16), 0x3D, 0x3D]"
| "base64 [a, b] =
     [base64_char (a div 4), base64_char (a mod 4 * 16 + b div 16),
      base64_char (b mod 16 * 4), 0x3D]"
| "base64 (a # b # c # r) =
     [base64_char (a div 4), base64_char (a mod 4 * 16 + b div 16),
      base64_char (b mod 16 * 4 + c div 64), base64_char (c mod 64)] @ base64 r"

definition btoa :: "jsstring \<Rightarrow> js_error + jsstring" where
  "btoa s =
     (if list_ex (\<lambda>c. 0xFF < c) s then Inl InvalidCharacterError
      else Inr (base64 (map uint s)))"

definition sendTwilioSMS :: "EnvBindings \<Rightarrow> jsstring \<Rightarrow> reply \<Rightarrow> promise" where
  "sendTwilioSMS env messageText rp =
     (if \<not> truthy (TWILIO_ACCOUNT_SID env) \<or> \<not> truthy (TWILIO_AUTH_TOKEN env)
         \<or> \<not> truthy (TWILIO_TO_NUMBER env) then
        \<lparr>logged = [Warn (str ''[Twilio] '' @ [0x26A0, 0xFE0F]
                          @ str '' Missing Twilio credentials or phone number'')],
         fetched = [], settled = Inr (), settled_at = 0\<rparr>
      else
        let url = str ''https://api.twilio.com/2010-04-01/Accounts/''
                  @ to_string (TWILIO_ACCOUNT_SID env) @ str ''/Messages.json'';
            formData = [(str ''To'', to_string (TWILIO_TO_NUMBER env)),
                        (str ''MessagingServiceSid'',
                         to_string (TWILIO_MESSAGING_SERVICE_SID env)),
                        (str ''Body'', siren @ str '' '' @ messageText)]
        in case btoa (to_string (TWILIO_ACCOUNT_SID env) @ str '':''
                      @ to_string (TWILIO_AUTH_TOKEN env)) of
             Inl e \<Rightarrow> \<lparr>logged = [], fetched = [], settled = Inl e, settled_at = 0\<rparr>
           | Inr auth \<Rightarrow>
               let req = \<lparr>req_url = url, req_method = str ''POST'',
                          req_headers =
                            [(str ''Authorization'', str ''Basic '' @ auth),
                             (str ''Content-Type'',
                              str ''application/x-www-form-urlencoded'')],
                          req_body = Form formData\<rparr>
               in \<lparr>logged =
                     (case outcome rp of
                        Inl e \<Rightarrow> [Error (str ''[Twilio] Error:'') (Thrown e)]
                      | Inr r \<Rightarrow>
                          if ok r then
                            [Log (str ''[Twilio] '' @ [0x2705] @ str '' SMS sent successfully'')]
                          else
                            (case resp_text r of
                               Inl e \<Rightarrow> [Error (str ''[Twilio] Error:'') (Thrown e)]
                             | Inr errorData \<Rightarrow>
                                 [Error (str ''[Twilio] '' @ [0x274C]
                                         @ str '' Failed to send SMS:'') (Text errorData)])),
                   fetched = [req], settled = Inr (), settled_at = arrives_at rp\<rparr>)"

section \<open>The monitor\<close>

text \<open>
  The body of the loop of \<open>checkHealthFactors\<close>. \<open>risk\<close> is its first half: \<open>None\<close>
  where the loop leaves the iteration at \<open>continue\<close>, before any ratio is computed, and the
  ratio \<open>ltv\<close> otherwise.
\<close>

definition risk :: "AaveUser \<Rightarrow> number option" where
  "risk user =
     (let collateral = parseFloat (totalCollateralBase user);
          debt = parseFloat (totalDebtBase user)
      in if strict_equals collateral (Finite False 0) then None
         else Some (js_mul (js_div debt collateral) (Finite False 100)))"

definition shortAddr :: "jsstring \<Rightarrow> jsstring" where
  "shortAddr i = substring i 0 6 @ str ''...'' @ substring_from i 38"

definition msg :: "jsstring \<Rightarrow> jsstring \<Rightarrow> jsstring" where
  "msg i pct = str ''High LTV Alert! Wallet '' @ shortAddr i @ str '' is at '' @ pct
               @ str ''% LTV.''"

text \<open>
  The state of the loop: the console calls made so far and the queue \<open>alertPromises\<close>.
  Each sender is called when its promise is pushed; \<open>net\<close> gives the provider's reply to
  the call whose promise has index \<open>n\<close> in the queue. An error thrown in the body leaves the
  loop with the state reached (\<open>Inl\<close>).
\<close>

record monitor =
  console :: "console_call list"
  alertPromises :: "promise list"

definition check_user ::
  "EnvBindings \<Rightarrow> (nat \<Rightarrow> reply) \<Rightarrow> monitor \<Rightarrow> AaveUser \<Rightarrow> (js_error \<times> monitor) + monitor" where
  "check_user env net st user =
     (case risk user of
        None \<Rightarrow> Inr st
      | Some ltv \<Rightarrow>
          if js_gt ltv (Finite False 85) then
            (case toFixed ltv 2 of
               Inl e \<Rightarrow> Inl (e, st)
             | Inr shown \<Rightarrow>
                 let st1 = st\<lparr>console := console st
                             @ [Log (str ''[Alert] '' @ [0x26A0, 0xFE0F]
                                     @ str '' High LTV found: '' @ id' user @ str '' at ''
                                     @ shown @ str ''%'')]\<rparr>
                 in case toFixed ltv 2 of
                      Inl e \<Rightarrow> Inl (e, st1)
                    | Inr pct \<Rightarrow>
                        let m = msg (id' user) pct;
                            n = length (alertPromises st1);
                            st2 = st1\<lparr>alertPromises := alertPromises st1
                                        @ [sendTelegramAlert env m (net n)]\<rparr>
                        in Inr (st2\<lparr>alertPromises := alertPromises st2
                                      @ [sendTwilioSMS env m (net (Suc n))]\<rparr>))
          else Inr st)"

fun check_users ::
  "EnvBindings \<Rightarrow> (nat \<Rightarrow> reply) \<Rightarrow> monitor \<Rightarrow> AaveUser list \<Rightarrow> (js_error \<times> monitor) + monitor" where
  "check_users env net st [] = Inr st"
| "check_users env net st (user # users) =
     (case check_user env net st user of
        Inl thrown \<Rightarrow> Inl thrown
      | Inr st' \<Rightarrow> check_users env net st' users)"

text \<open>
  \<open>Promise.all\<close>: fulfilled when every promise of the list is, at the time the last one is;
  rejected as soon as one of them is rejected, with the error of the one rejected first (the
  first of the list among those rejected at the same time).
\<close>

definition rejected :: "promise \<Rightarrow> bool" where
  "rejected p = (case settled p of Inl e \<Rightarrow> True | Inr u \<Rightarrow> False)"

definition promise_all :: "promise list \<Rightarrow> (js_error + unit) \<times> nat" where
  "promise_all ps =
     (case filter rejected ps of
        [] \<Rightarrow> (Inr (), foldr max (map settled_at ps) 0)
      | r # rs \<Rightarrow>
          (let p = foldl (\<lambda>b q. if settled_at q < settled_at b then q else b) r rs
           in (settled p, settled_at p)))"

text \<open>
  One run of the pipeline: the console calls of \<open>checkHealthFactors\<close> itself, the promises
  of the sender calls it made, the outcome of its \<open>await Promise.all\<close> (\<open>None\<close> when it was
  not reached), the time at which the run is over and how its own promise settles.
  \<open>check_positions\<close> is the \<open>try\<close> block and its \<open>catch\<close> for any list \<open>users\<close>;
  \<open>checkHealthFactors\<close> runs it on the mock list, as the source does.
\<close>

record run =
  printed :: "console_call list"
  sends :: "promise list"
  awaited :: "(js_error + unit) option"
  finished_at :: nat
  result :: "js_error + unit"

definition check_positions :: "EnvBindings \<Rightarrow> (nat \<Rightarrow> reply) \<Rightarrow> AaveUser list \<Rightarrow> run" where
  "check_positions env net users =
     (let st0 = \<lparr>console = [Log (str ''[Monitor] '' @ [0xD83D, 0xDD0D]
                                  @ str '' Using MOCK data - ''
                                  @ decimal_digits (int (length users))
                                  @ str '' test borrowers.'')],
                 alertPromises = []\<rparr>
      in case check_users env net st0 users of
           Inl (e, st) \<Rightarrow>
             \<lparr>printed = console st
                 @ [Error (str ''[Error] Failed to fetch or process data:'') (Thrown e)],
              sends = alertPromises st, awaited = None, finished_at = 0, result = Inr ()\<rparr>
         | Inr st \<Rightarrow>
             (case promise_all (alertPromises st) of
                (Inl e, t) \<Rightarrow>
                  \<lparr>printed = console st
                      @ [Error (str ''[Error] Failed to fetch or process data:'') (Thrown e)],
                   sends = alertPromises st, awaited = Some (Inl e), finished_at = t,
                   result = Inr ()\<rparr>
              | (Inr u, t) \<Rightarrow>
                  \<lparr>printed = console st
                      @ (if length (alertPromises st) = 0
                         then [Log (str ''[Monitor] '' @ [0x2705]
                                    @ str '' No high LTV positions detected.'')]
                         else []),
                   sends = alertPromises st, awaited = Some (Inr ()), finished_at = t,
                   result = Inr ()\<rparr>))"

definition checkHealthFactors :: "EnvBindings \<Rightarrow> (nat \<Rightarrow> reply) \<Rightarrow> run" where
  "checkHealthFactors env net = check_positions env net mockUsers"

section \<open>The routes and the scheduled handler\<close>

record http_response =
  http_status :: nat
  http_json :: "(jsstring \<times> jsstring) list"

text \<open>
  \<open>GET /api/test\<close> awaits the run: an error out of \<open>checkHealthFactors\<close> would leave the
  handler (\<open>Inl\<close>); otherwise the acknowledgement is returned.
\<close>

definition api_test ::
  "EnvBindings \<Rightarrow> (nat \<Rightarrow> reply) \<Rightarrow> console_call list \<times> run \<times> (js_error + http_response)" where
  "api_test env net =
     (let r = checkHealthFactors env net
      in ([Log (str ''[Manual] '' @ [0xD83D, 0xDD27] @ str '' Manual test triggered via API'')],
          r,
          case result r of
            Inl e \<Rightarrow> Inl e
          | Inr u \<Rightarrow>
              Inr \<lparr>http_status = 200,
                   http_json = [(str ''message'',
                                 str ''Manual check completed. Check logs with '' @ [0x60]
                                 @ str ''npm run tail'' @ [0x60])]\<rparr>))"

text \<open>\<open>GET /api/health\<close>; \<open>now\<close> is the clock's \<open>new Date().toISOString()\<close>.\<close>

record health =
  status :: jsstring
  timestamp :: jsstring
  telegram :: bool
  twilio :: bool

definition api_health :: "EnvBindings \<Rightarrow> jsstring \<Rightarrow> health" where
  "api_health env now =
     \<lparr>status = str ''healthy'',
      timestamp = now,
      telegram = (truthy (TELEGRAM_BOT_TOKEN env) \<and> truthy (TELEGRAM_CHAT_ID env)),
      twilio = (truthy (TWILIO_ACCOUNT_SID env) \<and> truthy (TWILIO_AUTH_TOKEN env)
                \<and> truthy (TWILIO_MESSAGING_SERVICE_SID env))\<rparr>"

text \<open>The scheduled handler hands the run to \<open>ctx.waitUntil\<close>.\<close>

definition scheduled :: "EnvBindings \<Rightarrow> (nat \<Rightarrow> reply) \<Rightarrow> console_call list \<times> run" where
  "scheduled env net =
     ([Log (str ''[Cron] '' @ [0x23F0]
            @ str '' Scheduled event triggered. Checking health factors...'')],
      checkHealthFactors env net)"

section \<open>Notions of the specification\<close>

text \<open>
  The specification speaks of numeric strings, of positions that are flagged, of the last
  six characters of an identifier and of HTML-escaping. These are its notions, written out
  to be compared with what the worker computes.

  A numeric string: the whole string, white space around it apart, is a decimal literal.
\<close>

definition numeric_string :: "jsstring \<Rightarrow> bool" where
  "numeric_string s =
     (case str_decimal_literal (dropWhile is_white_space s) of
        None \<Rightarrow> False
      | Some (x, r) \<Rightarrow> dropWhile is_white_space r = [])"

text \<open>A position is flagged when its ratio was computed and is above the threshold.\<close>

definition flagged :: "AaveUser \<Rightarrow> bool" where
  "flagged user = (case risk user of None \<Rightarrow> False | Some ltv \<Rightarrow> js_gt ltv (Finite False 85))"

text \<open>
  The alert message of a position, if it is flagged, and the dispatcher of the
  specification: for each message, in order, one call of each sender; \<open>n\<close> is the number
  of sender calls made before.
\<close>

definition alert_of :: "AaveUser \<Rightarrow> jsstring option" where
  "alert_of user =
     (case risk user of
        None \<Rightarrow> None
      | Some ltv \<Rightarrow>
          if js_gt ltv (Finite False 85)
          then (case toFixed ltv 2 of Inl e \<Rightarrow> None | Inr pct \<Rightarrow> Some (msg (id' user) pct))
          else None)"

fun dispatch :: "EnvBindings \<Rightarrow> (nat \<Rightarrow> reply) \<Rightarrow> nat \<Rightarrow> jsstring list \<Rightarrow> promise list" where
  "dispatch env net n [] = []"
| "dispatch env net n (m # ms) =
     sendTelegramAlert env m (net n) # sendTwilioSMS env m (net (Suc n))
     # dispatch env net (Suc (Suc n)) ms"

text \<open>
  The credentials of the SMS channel can be encoded by \<open>btoa\<close>: the channel is not
  configured, or no code unit of the account id and the auth secret is above 255.
\<close>

definition encodable :: "EnvBindings \<Rightarrow> bool" where
  "encodable env =
     (\<not> (truthy (TWILIO_ACCOUNT_SID env) \<and> truthy (TWILIO_AUTH_TOKEN env)
          \<and> truthy (TWILIO_TO_NUMBER env)
          \<and> list_ex (\<lambda>c. 0xFF < c)
               (to_string (TWILIO_ACCOUNT_SID env) @ str '':''
                @ to_string (TWILIO_AUTH_TOKEN env))))"

text \<open>The shortened identifier the specification describes: \<open>first6...last6\<close>.\<close>

definition first6_last6 :: "jsstring \<Rightarrow> jsstring" where
  "first6_last6 i = take 6 i @ str ''...'' @ drop (length i - 6) i"

text \<open>
  A magnitude rendered to two decimal places: the digits of the whole part, a point, and the
  two digits of the hundredths, for the nearest number of hundredths (the larger of two).
\<close>

definition two_decimals :: "rat \<Rightarrow> jsstring" where
  "two_decimals a =
     (let n = \<lfloor>a * 100 + 1 / 2\<rfloor>
      in decimal_digits (n div 100) @ str ''.''
         @ [of_int (48 + n div 10 mod 10), of_int (48 + n mod 10)])"

text \<open>HTML-escaping of a text: the three characters with a meaning in markup.\<close>

definition html_escape :: "jsstring \<Rightarrow> jsstring" where
  "html_escape s =
     concat (map (\<lambda>c. if c = 0x26 then str ''&amp;''
                       else if c = 0x3C then str ''&lt;''
                       else if c = 0x3E then str ''&gt;''
                       else [c]) s)"

text \<open>The field of a JSON or form body with a given name.\<close>

definition field :: "jsstring \<Rightarrow> body \<Rightarrow> jsstring option" where
  "field k b = (case b of Json kvs \<Rightarrow> map_of kvs k | Form kvs \<Rightarrow> map_of kvs k)"

section \<open>Example inputs\<close>

text \<open>A configuration with every binding set.\<close>

definition env_complete :: EnvBindings where
  "env_complete =
     \<lparr>TELEGRAM_BOT_TOKEN = Some (str ''123:abc''), TELEGRAM_CHAT_ID = Some (str ''42''),
      TWILIO_ACCOUNT_SID = Some (str ''AC1''), TWILIO_AUTH_TOKEN = Some (str ''tok''),
      TWILIO_MESSAGING_SERVICE_SID = Some (str ''MG1''),
      TWILIO_TO_NUMBER = Some (str ''+15550100'')\<rparr>"

text \<open>
  The same with a zero-width space (U+200B), as a pasted secret can carry, at the end of the
  account id.
\<close>

definition env_pasted :: EnvBindings where
  "env_pasted = env_complete\<lparr>TWILIO_ACCOUNT_SID := Some (str ''AC1'' @ [0x200B])\<rparr>"

text \<open>The same as \<open>env_complete\<close> without the destination phone number.\<close>

definition env_no_number :: EnvBindings where
  "env_no_number = env_complete\<lparr>TWILIO_TO_NUMBER := None\<rparr>"

text \<open>The same as \<open>env_complete\<close> without the messaging-service id.\<close>

definition env_no_service :: EnvBindings where
  "env_no_service = env_complete\<lparr>TWILIO_MESSAGING_SERVICE_SID := None\<rparr>"

text \<open>A position whose identifier holds markup characters.\<close>

definition position_markup :: AaveUser where
  "position_markup =
     \<lparr>id' = str ''<b>&x'', totalCollateralBase = str ''1000000'',
      totalDebtBase = str ''900000''\<rparr>"

text \<open>Providers that answer every request at time 5, with status 200 or with status 500.\<close>

definition net_ok :: "nat \<Rightarrow> reply" where
  "net_ok n = \<lparr>arrives_at = 5, outcome = Inr \<lparr>resp_status = 200, resp_text = Inr []\<rparr>\<rparr>"

definition net_500 :: "nat \<Rightarrow> reply" where
  "net_500 n =
     \<lparr>arrives_at = 5,
      outcome = Inr \<lparr>resp_status = 500, resp_text = Inr (str ''Internal Server Error'')\<rparr>\<rparr>"

text \<open>The positions of the scenarios.\<close>

definition position :: "jsstring \<Rightarrow> jsstring \<Rightarrow> AaveUser" where
  "position c d =
     \<lparr>id' = str ''0x1234567890abcdef1234567890abcdef12345678'',
      totalCollateralBase = c, totalDebtBase = d\<rparr>"

definition start :: monitor where
  "start = \<lparr>console = [], alertPromises = []\<rparr>"

section \<open>Properties of the loop body\<close>

lemma toFixed_two: "\<exists>s. toFixed x 2 = Inr s"
  by (simp add: toFixed_def)

lemma risk_Some:
  "\<not> strict_equals (parseFloat (totalCollateralBase user)) (Finite False 0) \<Longrightarrow>
   risk user = Some (js_mul (js_div (parseFloat (totalDebtBase user))
                                    (parseFloat (totalCollateralBase user))) (Finite False 100))"
  by (simp add: risk_def Let_def)

lemma risk_None:
  "strict_equals (parseFloat (totalCollateralBase user)) (Finite False 0) \<Longrightarrow> risk user = None"
  by (simp add: risk_def Let_def)

lemma check_user_skip: "risk user = None \<Longrightarrow> check_user env net st user = Inr st"
  by (simp add: check_user_def)

lemma check_user_below:
  "risk user = Some ltv \<Longrightarrow> \<not> js_gt ltv (Finite False 85) \<Longrightarrow> check_user env net st user = Inr st"
  by (simp add: check_user_def)

lemma check_user_above:
  assumes "risk user = Some ltv" and "js_gt ltv (Finite False 85)" and "toFixed ltv 2 = Inr pct"
  shows "check_user env net st user =
     Inr \<lparr>console = console st
            @ [Log (str ''[Alert] '' @ [0x26A0, 0xFE0F] @ str '' High LTV found: '' @ id' user
                    @ str '' at '' @ pct @ str ''%'')],
          alertPromises = alertPromises st
            @ [sendTelegramAlert env (msg (id' user) pct) (net (length (alertPromises st))),
               sendTwilioSMS env (msg (id' user) pct) (net (Suc (length (alertPromises st))))]\<rparr>"
  using assms by (simp add: check_user_def Let_def)

subsection \<open>Evaluations of the scenarios\<close>

lemma parse_0: "parseFloat (str ''0'') = Finite False 0"
  by code_simp

lemma parse_1000000: "parseFloat (str ''1000000'') = Finite False 1000000"
  by code_simp

lemma parse_900000: "parseFloat (str ''900000'') = Finite False 900000"
  by code_simp

lemma ratio_90:
  "js_mul (js_div (Finite False 900000) (Finite False 1000000)) (Finite False 100)
   = Finite False 90"
  by code_simp

lemma risk_scenario_A:
  "risk (position (str ''1000000'') (str ''900000'')) = Some (Finite False 90)"
  by (simp add: risk_def position_def parse_1000000 parse_900000 ratio_90 signed_def
      del: js_div.simps js_mul.simps)

lemma risk_scenario_B:
  "risk (position (str ''500000'') (str ''425000'')) = Some (Finite False 85)"
  by code_simp

section \<open>The threshold\<close>

text \<open>
  C1. For every position whose parsed collateral is not zero, the iteration queues the two
  sender calls, with one alert text, if and only if the computed ratio
  \<open>debt / collateral * 100\<close> is strictly above 85, and leaves the state as it was
  otherwise. The position with collateral 500000 and debt 425000 has the ratio 85 exactly
  and is not alerted.
\<close>

theorem alert_iff_ratio_above_85:
  "(\<forall>env net st user.
      \<not> strict_equals (parseFloat (totalCollateralBase user)) (Finite False 0) \<longrightarrow>
      (if js_gt (js_mul (js_div (parseFloat (totalDebtBase user))
                                (parseFloat (totalCollateralBase user))) (Finite False 100))
                (Finite False 85)
       then \<exists>line pct. check_user env net st user =
              Inr \<lparr>console = console st @ [line],
                   alertPromises = alertPromises st
                     @ [sendTelegramAlert env (msg (id' user) pct)
                          (net (length (alertPromises st))),
                        sendTwilioSMS env (msg (id' user) pct)
                          (net (Suc (length (alertPromises st))))]\<rparr>
       else check_user env net st user = Inr st))
   \<and> (\<forall>env net st.
        risk (position (str ''500000'') (str ''425000'')) = Some (Finite False 85)
        \<and> check_user env net st (position (str ''500000'') (str ''425000'')) = Inr st)"
proof (intro conjI allI impI)
  fix env :: EnvBindings and net :: "nat \<Rightarrow> reply" and st :: monitor and user :: AaveUser
  assume nz: "\<not> strict_equals (parseFloat (totalCollateralBase user)) (Finite False 0)"
  let ?ltv = "js_mul (js_div (parseFloat (totalDebtBase user))
                (parseFloat (totalCollateralBase user))) (Finite False 100)"
  have r: "risk user = Some ?ltv" using nz by (rule risk_Some)
  obtain pct where p: "toFixed ?ltv 2 = Inr pct" using toFixed_two by blast
  show "if js_gt ?ltv (Finite False 85)
       then \<exists>line pct. check_user env net st user =
              Inr \<lparr>console = console st @ [line],
                   alertPromises = alertPromises st
                     @ [sendTelegramAlert env (msg (id' user) pct)
                          (net (length (alertPromises st))),
                        sendTwilioSMS env (msg (id' user) pct)
                          (net (Suc (length (alertPromises st))))]\<rparr>
       else check_user env net st user = Inr st"
  proof (cases "js_gt ?ltv (Finite False 85)")
    case True
    then show ?thesis using check_user_above[OF r True p] by auto
  next
    case False
    then show ?thesis using check_user_below[OF r False] by simp
  qed
next
  show "risk (position (str ''500000'') (str ''425000'')) = Some (Finite False 85)"
    by (rule risk_scenario_B)
next
  fix env :: EnvBindings and net :: "nat \<Rightarrow> reply" and st :: monitor
  show "check_user env net st (position (str ''500000'') (str ''425000'')) = Inr st"
    by (rule check_user_below[OF risk_scenario_B]) (simp add: signed_def)
qed

theorem alert_iff_ratio_above_85_witness:
  "\<not> strict_equals (parseFloat (str ''1000000'')) (Finite False 0)
   \<and> (\<exists>line pct.
        check_user env_complete net_ok start (position (str ''1000000'') (str ''900000'')) =
          Inr \<lparr>console = [line],
               alertPromises =
                 [sendTelegramAlert env_complete
                    (msg (str ''0x1234567890abcdef1234567890abcdef12345678'') pct) (net_ok 0),
                  sendTwilioSMS env_complete
                    (msg (str ''0x1234567890abcdef1234567890abcdef12345678'') pct)
                    (net_ok 1)]\<rparr>)"
  using alert_iff_ratio_above_85 [THEN conjunct1, rule_format,
      of "position (str ''1000000'') (str ''900000'')" env_complete net_ok start]
  by (simp add: position_def parse_1000000 parse_900000 ratio_90 signed_def start_def
        del: js_div.simps js_mul.simps)

section \<open>The zero-collateral guard\<close>

text \<open>
  C2. A position whose collateral parses to zero leaves the iteration at the guard: no ratio
  is computed (\<open>risk\<close> is \<open>None\<close>), and the state, with its queue of alerts, is as it was,
  whatever the debt string is.
\<close>

theorem zero_collateral_is_skipped:
  assumes "strict_equals (parseFloat (totalCollateralBase user)) (Finite False 0)"
  shows "risk (user\<lparr>totalDebtBase := d\<rparr>) = None
         \<and> check_user env net st (user\<lparr>totalDebtBase := d\<rparr>) = Inr st"
  using assms by (simp add: risk_def check_user_def Let_def)

theorem zero_collateral_is_skipped_witness:
  "strict_equals (parseFloat (str ''0'')) (Finite False 0)
   \<and> risk (position (str ''0'') (str ''900000'')) = None
   \<and> check_user env_complete net_ok start (position (str ''0'') (str ''900000'')) = Inr start"
  using zero_collateral_is_skipped [of "position (str ''0'') (str ''0'')" "str ''900000''"
      env_complete net_ok start]
  by (simp add: position_def parse_0 signed_def)

section \<open>The alert text\<close>

lemma decimal_digits_small: "n < 10 \<Longrightarrow> decimal_digits n = [of_int (48 + n)]"
  by (subst decimal_digits.simps) simp

lemma decimal_digits_large:
  "10 \<le> n \<Longrightarrow> decimal_digits n = decimal_digits (n div 10) @ [of_int (48 + n mod 10)]"
  by (subst decimal_digits.simps) simp

lemma decimal_digits_hundreds:
  assumes "100 \<le> n"
  shows "decimal_digits n =
    decimal_digits (n div 100) @ [of_int (48 + n div 10 mod 10), of_int (48 + n mod 10)]"
proof -
  have "10 \<le> n div 10" using assms by simp
  moreover have "n div 10 div 10 = n div 100"
    by (simp add: div_mult2_eq[symmetric])
  ultimately show ?thesis
    using assms by (simp add: decimal_digits_large[of n] decimal_digits_large[of "n div 10"])
qed

lemma decimal_digits_nonempty: "decimal_digits n \<noteq> []"
  by (subst decimal_digits.simps) simp

lemma fixed_digits_two:
  assumes "0 \<le> a"
  shows "fixed_digits a 2 = two_decimals a"
proof -
  define n where "n = \<lfloor>a * 100 + 1 / 2\<rfloor>"
  have n0: "0 \<le> n" using assms by (simp add: n_def)
  consider "n < 10" | "10 \<le> n" "n < 100" | "100 \<le> n" by linarith
  then have "(let m = decimal_digits n;
          m' = (if length m \<le> 2 then replicate (2 + 1 - length m) 0x30 @ m else m)
      in take (length m' - 2) m' @ str ''.'' @ drop (length m' - 2) m')
     = decimal_digits (n div 100) @ str ''.''
         @ [of_int (48 + n div 10 mod 10), of_int (48 + n mod 10)]"
  proof cases
    case 1
    then show ?thesis using n0 by (simp add: decimal_digits_small numeral_3_eq_3)
  next
    case 2
    then have "n div 10 < 10" "n div 100 = 0" "n div 10 mod 10 = n div 10" by simp_all
    then show ?thesis using 2 n0
      by (simp add: decimal_digits_large[of n] decimal_digits_small)
  next
    case 3
    have "decimal_digits (n div 100) \<noteq> []" by (rule decimal_digits_nonempty)
    then show ?thesis using 3
      by (simp add: decimal_digits_hundreds[of n])
  qed
  then show ?thesis
    by (simp add: fixed_digits_def two_decimals_def n_def Let_def)
qed

lemma toFixed_two_finite:
  "0 \<le> a \<Longrightarrow> a < 10 ^ 21 \<Longrightarrow> toFixed (Finite False a) 2 = Inr (two_decimals a)"
  by (simp add: toFixed_def fixed_digits_two)

lemma shortAddr_take_drop: "shortAddr i = take 6 i @ str ''...'' @ drop 38 i"
  by (simp add: shortAddr_def substring_def substring_from_def)

lemma two_decimals_90: "two_decimals 90 = str ''90.00''"
  by code_simp

text \<open>
  C6, as the specification states it, fails on the first mock position: the identifier is
  shortened to its first six characters and the characters from index 38 on, which are the
  last four of a 42-character address, not the last six.
\<close>

theorem alert_text_counterexample:
  "shortAddr (str ''0x1234567890abcdef1234567890abcdef12345678'') = str ''0x1234...5678''
   \<and> first6_last6 (str ''0x1234567890abcdef1234567890abcdef12345678'') = str ''0x1234...345678''
   \<and> check_user env_complete net_ok start (position (str ''1000000'') (str ''900000''))
       = Inr \<lparr>console =
                [Log (str ''[Alert] '' @ [0x26A0, 0xFE0F] @ str '' High LTV found: ''
                      @ str ''0x1234567890abcdef1234567890abcdef12345678'' @ str '' at ''
                      @ str ''90.00'' @ str ''%'')],
              alertPromises =
                [sendTelegramAlert env_complete
                   (str ''High LTV Alert! Wallet 0x1234...5678 is at 90.00% LTV.'') (net_ok 0),
                 sendTwilioSMS env_complete
                   (str ''High LTV Alert! Wallet 0x1234...5678 is at 90.00% LTV.'') (net_ok 1)]\<rparr>
   \<and> str ''High LTV Alert! Wallet 0x1234...5678 is at 90.00% LTV.''
       \<noteq> str ''High LTV Alert! Wallet ''
          @ first6_last6 (str ''0x1234567890abcdef1234567890abcdef12345678'')
          @ str '' is at 90.00% LTV.''"
proof (intro conjI)
  show s: "shortAddr (str ''0x1234567890abcdef1234567890abcdef12345678'') = str ''0x1234...5678''"
    by code_simp
  show "first6_last6 (str ''0x1234567890abcdef1234567890abcdef12345678'')
        = str ''0x1234...345678''"
    by code_simp
  have t: "toFixed (Finite False 90) 2 = Inr (str ''90.00'')"
    by (simp add: toFixed_two_finite two_decimals_90)
  have m: "msg (str ''0x1234567890abcdef1234567890abcdef12345678'') (str ''90.00'')
           = str ''High LTV Alert! Wallet 0x1234...5678 is at 90.00% LTV.''"
    by (simp add: msg_def s) (simp add: str_def)
  show "check_user env_complete net_ok start (position (str ''1000000'') (str ''900000''))
       = Inr \<lparr>console =
                [Log (str ''[Alert] '' @ [0x26A0, 0xFE0F] @ str '' High LTV found: ''
                      @ str ''0x1234567890abcdef1234567890abcdef12345678'' @ str '' at ''
                      @ str ''90.00'' @ str ''%'')],
              alertPromises =
                [sendTelegramAlert env_complete
                   (str ''High LTV Alert! Wallet 0x1234...5678 is at 90.00% LTV.'') (net_ok 0),
                 sendTwilioSMS env_complete
                   (str ''High LTV Alert! Wallet 0x1234...5678 is at 90.00% LTV.'') (net_ok 1)]\<rparr>"
    using check_user_above[OF risk_scenario_A _ t, of env_complete net_ok start]
    by (simp add: signed_def start_def position_def m)
  show "str ''High LTV Alert! Wallet 0x1234...5678 is at 90.00% LTV.''
       \<noteq> str ''High LTV Alert! Wallet ''
          @ first6_last6 (str ''0x1234567890abcdef1234567890abcdef12345678'')
          @ str '' is at 90.00% LTV.''"
    by code_simp
qed

text \<open>
  C6, amended. For every alerted position whose ratio is finite and below \<open>10 ^ 21\<close>, the
  one text given to both senders is \<open>High LTV Alert! Wallet\<close>, the first six characters
  of the identifier, three dots, the characters of the identifier from index 38 on, \<open>is at\<close>,
  the ratio rendered to two decimal places, and \<open>% LTV.\<close>
\<close>

theorem alert_text_shape:
  assumes "risk user = Some (Finite False a)" and "85 < a" and "a < 10 ^ 21"
  shows "\<exists>line. check_user env net st user =
     Inr \<lparr>console = console st @ [line],
          alertPromises = alertPromises st
            @ [sendTelegramAlert env
                 (str ''High LTV Alert! Wallet '' @ take 6 (id' user) @ str ''...''
                  @ drop 38 (id' user) @ str '' is at '' @ two_decimals a @ str ''% LTV.'')
                 (net (length (alertPromises st))),
               sendTwilioSMS env
                 (str ''High LTV Alert! Wallet '' @ take 6 (id' user) @ str ''...''
                  @ drop 38 (id' user) @ str '' is at '' @ two_decimals a @ str ''% LTV.'')
                 (net (Suc (length (alertPromises st))))]\<rparr>"
proof -
  have gt: "js_gt (Finite False a) (Finite False 85)" using assms(2) by (simp add: signed_def)
  have t: "toFixed (Finite False a) 2 = Inr (two_decimals a)"
    using assms by (intro toFixed_two_finite) simp_all
  show ?thesis
    using check_user_above[OF assms(1) gt t, of env net st]
    by (simp add: msg_def shortAddr_take_drop)
qed

theorem alert_text_shape_witness:
  "risk (position (str ''1000000'') (str ''900000'')) = Some (Finite False 90)
   \<and> (85::rat) < 90 \<and> (90::rat) < 10 ^ 21
   \<and> (\<exists>line. check_user env_complete net_ok start (position (str ''1000000'') (str ''900000'')) =
     Inr \<lparr>console = [line],
          alertPromises =
             [sendTelegramAlert env_complete
                 (str ''High LTV Alert! Wallet '' @ str ''0x1234'' @ str ''...''
                  @ str ''5678'' @ str '' is at '' @ str ''90.00'' @ str ''% LTV.'')
                 (net_ok 0),
               sendTwilioSMS env_complete
                 (str ''High LTV Alert! Wallet '' @ str ''0x1234'' @ str ''...''
                  @ str ''5678'' @ str '' is at '' @ str ''90.00'' @ str ''% LTV.'')
                 (net_ok 1)]\<rparr>)"
proof -
  have i: "take 6 (str ''0x1234567890abcdef1234567890abcdef12345678'') = str ''0x1234''"
     "drop 38 (str ''0x1234567890abcdef1234567890abcdef12345678'') = str ''5678''"
    by code_simp+
  have p: "id' (position (str ''1000000'') (str ''900000''))
           = str ''0x1234567890abcdef1234567890abcdef12345678''"
    by (simp add: position_def)
  show ?thesis
    using alert_text_shape [OF risk_scenario_A, of env_complete net_ok start]
    by (simp add: risk_scenario_A two_decimals_90 start_def p i)
qed

subsection \<open>Ratios without two decimals\<close>

text \<open>
  From \<open>10 ^ 21\<close> on \<open>toFixed\<close> writes exponent notation, and an infinite ratio is
  written \<open>Infinity\<close>: a debt string \<open>Infinity\<close> over a collateral of 1 is alerted with
  that text.
\<close>

lemma toFixed_large: "toFixed (Finite False (10 ^ 21)) 2 = Inr (str ''1e+21'')"
  by code_simp

lemma risk_unbounded: "risk (position (str ''1'') (str ''Infinity'')) = Some (Infinity False)"
  by code_simp

lemma unbounded_ratio_text:
  "check_user env_complete net_ok start (position (str ''1'') (str ''Infinity''))
     = Inr \<lparr>console =
              [Log (str ''[Alert] '' @ [0x26A0, 0xFE0F] @ str '' High LTV found: ''
                    @ str ''0x1234567890abcdef1234567890abcdef12345678'' @ str '' at ''
                    @ str ''Infinity'' @ str ''%'')],
            alertPromises =
              [sendTelegramAlert env_complete
                 (str ''High LTV Alert! Wallet 0x1234...5678 is at Infinity% LTV.'') (net_ok 0),
               sendTwilioSMS env_complete
                 (str ''High LTV Alert! Wallet 0x1234...5678 is at Infinity% LTV.'') (net_ok 1)]\<rparr>"
proof -
  have t: "toFixed (Infinity False) 2 = Inr (str ''Infinity'')"
    by (simp add: toFixed_def)
  have m: "msg (str ''0x1234567890abcdef1234567890abcdef12345678'') (str ''Infinity'')
           = str ''High LTV Alert! Wallet 0x1234...5678 is at Infinity% LTV.''"
    by code_simp
  show ?thesis
    using check_user_above[OF risk_unbounded _ t, of env_complete net_ok start]
    by (simp add: start_def position_def m)
qed

section \<open>Strings that do not parse\<close>

lemma to_number_not_NaN: "to_number s q \<noteq> NaN"
  by (simp add: to_number_def split: option.split)

lemma parseFloat_NaN_iff:
  "parseFloat s = NaN \<longleftrightarrow> str_decimal_literal (dropWhile is_white_space s) = None"
  by (auto simp: parseFloat_def str_decimal_literal_def Let_def to_number_not_NaN
      split: option.splits prod.splits if_splits)

lemma js_div_NaN_right: "js_div x NaN = NaN"
  by (cases x) simp_all

lemma js_gt_NaN_left: "\<not> js_gt NaN y"
  by simp

lemma risk_NaN:
  assumes "parseFloat (totalCollateralBase user) = NaN \<or> parseFloat (totalDebtBase user) = NaN"
  shows "risk user = None \<or> risk user = Some NaN"
  using assms by (auto simp: risk_def Let_def js_div_NaN_right)

lemma literal_abc: "str_decimal_literal (dropWhile is_white_space (str ''abc'')) = None"
  by code_simp

text \<open>
  C7, as the specification states it, fails on a debt string that is not numeric but starts
  with digits: \<open>parseFloat\<close> returns the value of the prefix, not NaN, and the position is
  alerted.
\<close>

theorem prefix_parse_counterexample:
  "\<not> numeric_string (str ''900000abc'')
   \<and> parseFloat (str ''900000abc'') = Finite False 900000
   \<and> risk (position (str ''1000000'') (str ''900000abc'')) = Some (Finite False 90)
   \<and> flagged (position (str ''1000000'') (str ''900000abc''))
   \<and> check_user env_complete net_ok start (position (str ''1000000'') (str ''900000abc''))
       = Inr \<lparr>console =
                [Log (str ''[Alert] '' @ [0x26A0, 0xFE0F] @ str '' High LTV found: ''
                      @ str ''0x1234567890abcdef1234567890abcdef12345678'' @ str '' at ''
                      @ str ''90.00'' @ str ''%'')],
              alertPromises =
                [sendTelegramAlert env_complete
                   (msg (str ''0x1234567890abcdef1234567890abcdef12345678'') (str ''90.00''))
                   (net_ok 0),
                 sendTwilioSMS env_complete
                   (msg (str ''0x1234567890abcdef1234567890abcdef12345678'') (str ''90.00''))
                   (net_ok 1)]\<rparr>"
proof (intro conjI)
  show "\<not> numeric_string (str ''900000abc'')" by code_simp
  show p: "parseFloat (str ''900000abc'') = Finite False 900000" by code_simp
  show r: "risk (position (str ''1000000'') (str ''900000abc'')) = Some (Finite False 90)"
    by (simp add: risk_def position_def parse_1000000 p ratio_90 signed_def
        del: js_div.simps js_mul.simps)
  show "flagged (position (str ''1000000'') (str ''900000abc''))"
    by (simp add: flagged_def r signed_def)
  have t: "toFixed (Finite False 90) 2 = Inr (str ''90.00'')"
    by (simp add: toFixed_two_finite two_decimals_90)
  show "check_user env_complete net_ok start (position (str ''1000000'') (str ''900000abc''))
       = Inr \<lparr>console =
                [Log (str ''[Alert] '' @ [0x26A0, 0xFE0F] @ str '' High LTV found: ''
                      @ str ''0x1234567890abcdef1234567890abcdef12345678'' @ str '' at ''
                      @ str ''90.00'' @ str ''%'')],
              alertPromises =
                [sendTelegramAlert env_complete
                   (msg (str ''0x1234567890abcdef1234567890abcdef12345678'') (str ''90.00''))
                   (net_ok 0),
                 sendTwilioSMS env_complete
                   (msg (str ''0x1234567890abcdef1234567890abcdef12345678'') (str ''90.00''))
                   (net_ok 1)]\<rparr>"
    using check_user_above[OF r _ t, of env_complete net_ok start]
    by (simp add: signed_def start_def position_def)
qed

text \<open>
  C7, amended. For every position whose collateral or debt string has no decimal literal at
  its start, leading white space apart, that string parses to NaN, the ratio does not
  compare above the threshold, and the iteration leaves the state as it was: no alert, no
  error.
\<close>

theorem unparsable_never_alerts:
  assumes "str_decimal_literal (dropWhile is_white_space (totalCollateralBase user)) = None
           \<or> str_decimal_literal (dropWhile is_white_space (totalDebtBase user)) = None"
  shows "(parseFloat (totalCollateralBase user) = NaN \<or> parseFloat (totalDebtBase user) = NaN)
         \<and> \<not> js_gt (js_mul (js_div (parseFloat (totalDebtBase user))
                                    (parseFloat (totalCollateralBase user))) (Finite False 100))
                     (Finite False 85)
         \<and> \<not> flagged user
         \<and> check_user env net st user = Inr st"
proof -
  have n: "parseFloat (totalCollateralBase user) = NaN \<or> parseFloat (totalDebtBase user) = NaN"
    using assms by (simp add: parseFloat_NaN_iff)
  then have q: "js_mul (js_div (parseFloat (totalDebtBase user))
                  (parseFloat (totalCollateralBase user))) (Finite False 100) = NaN"
    by (auto simp: js_div_NaN_right)
  from n have r: "risk user = None \<or> risk user = Some NaN" by (rule risk_NaN)
  then have f: "\<not> flagged user" by (auto simp: flagged_def)
  from r have "check_user env net st user = Inr st"
    by (auto simp: check_user_skip check_user_below)
  with n q f show ?thesis by simp
qed

theorem unparsable_never_alerts_witness:
  "str_decimal_literal (dropWhile is_white_space (str ''abc'')) = None
   \<and> parseFloat (str ''abc'') = NaN
   \<and> \<not> flagged (position (str ''1000000'') (str ''abc''))
   \<and> check_user env_complete net_ok start (position (str ''1000000'') (str ''abc'')) = Inr start"
  using unparsable_never_alerts [of "position (str ''1000000'') (str ''abc'')"
      env_complete net_ok start]
  by (simp add: position_def literal_abc parse_1000000)

section \<open>Negative collateral\<close>

lemma parse_neg_1000000: "parseFloat (str ''-1000000'') = Finite True 1000000"
  by code_simp

lemma parse_neg_900000: "parseFloat (str ''-900000'') = Finite True 900000"
  by code_simp

lemma ratio_neg_90:
  "js_mul (js_div (Finite True 900000) (Finite True 1000000)) (Finite False 100)
   = Finite False 90"
  by code_simp

text \<open>
  C10. The guard skips a position exactly when its collateral parses to zero. When it parses
  to a finite number other than zero, of either sign, the ratio is computed and the position
  is alerted exactly when the ratio is above 85; the position with collateral -1000000 and
  debt -900000 has the ratio 90 and both senders are called for it.
\<close>

theorem only_zero_collateral_is_skipped:
  "(\<forall>user. risk user = None
        \<longleftrightarrow> strict_equals (parseFloat (totalCollateralBase user)) (Finite False 0))
   \<and> (\<forall>s a. strict_equals (Finite s a) (Finite False 0) \<longleftrightarrow> a = 0)
   \<and> (\<forall>env net st user.
        \<not> strict_equals (parseFloat (totalCollateralBase user)) (Finite False 0) \<longrightarrow>
        risk user = Some (js_mul (js_div (parseFloat (totalDebtBase user))
                                         (parseFloat (totalCollateralBase user)))
                                 (Finite False 100))
        \<and> (flagged user \<longleftrightarrow>
             js_gt (js_mul (js_div (parseFloat (totalDebtBase user))
                                   (parseFloat (totalCollateralBase user)))
                           (Finite False 100)) (Finite False 85))
        \<and> (flagged user \<longleftrightarrow> check_user env net st user \<noteq> Inr st))
   \<and> risk (position (str ''-1000000'') (str ''-900000'')) = Some (Finite False 90)
   \<and> check_user env_complete net_ok start (position (str ''-1000000'') (str ''-900000''))
       = Inr \<lparr>console =
                [Log (str ''[Alert] '' @ [0x26A0, 0xFE0F] @ str '' High LTV found: ''
                      @ str ''0x1234567890abcdef1234567890abcdef12345678'' @ str '' at ''
                      @ str ''90.00'' @ str ''%'')],
              alertPromises =
                [sendTelegramAlert env_complete
                   (msg (str ''0x1234567890abcdef1234567890abcdef12345678'') (str ''90.00''))
                   (net_ok 0),
                 sendTwilioSMS env_complete
                   (msg (str ''0x1234567890abcdef1234567890abcdef12345678'') (str ''90.00''))
                   (net_ok 1)]\<rparr>"
proof (intro conjI allI impI)
  fix user :: AaveUser
  show "risk user = None
        \<longleftrightarrow> strict_equals (parseFloat (totalCollateralBase user)) (Finite False 0)"
    by (simp add: risk_def Let_def)
next
  fix s :: bool and a :: rat
  show "strict_equals (Finite s a) (Finite False 0) \<longleftrightarrow> a = 0"
    by (simp add: signed_def)
next
  fix env :: EnvBindings and net :: "nat \<Rightarrow> reply" and st :: monitor and user :: AaveUser
  assume nz: "\<not> strict_equals (parseFloat (totalCollateralBase user)) (Finite False 0)"
  let ?ltv = "js_mul (js_div (parseFloat (totalDebtBase user))
                (parseFloat (totalCollateralBase user))) (Finite False 100)"
  from risk_Some[OF nz] show r: "risk user = Some ?ltv" by simp
  show f: "flagged user \<longleftrightarrow> js_gt ?ltv (Finite False 85)"
    by (simp add: flagged_def r)
  obtain pct where p: "toFixed ?ltv 2 = Inr pct" using toFixed_two by blast
  show "flagged user \<longleftrightarrow> check_user env net st user \<noteq> Inr st"
  proof (cases "js_gt ?ltv (Finite False 85)")
    case True
    have "alertPromises st \<noteq> alertPromises st @ [x, y]" for x y :: promise by simp
    then show ?thesis
      using check_user_above[OF r True p, of env net st] f True
      by (metis monitor.select_convs(2) sum.inject(2))
  next
    case False
    then show ?thesis using check_user_below[OF r False, of env net st] f by simp
  qed
next
  show r: "risk (position (str ''-1000000'') (str ''-900000'')) = Some (Finite False 90)"
    by (simp add: risk_def position_def parse_neg_1000000 parse_neg_900000 ratio_neg_90
        signed_def del: js_div.simps js_mul.simps)
  have t: "toFixed (Finite False 90) 2 = Inr (str ''90.00'')"
    by (simp add: toFixed_two_finite two_decimals_90)
  show "check_user env_complete net_ok start (position (str ''-1000000'') (str ''-900000''))
       = Inr \<lparr>console =
                [Log (str ''[Alert] '' @ [0x26A0, 0xFE0F] @ str '' High LTV found: ''
                      @ str ''0x1234567890abcdef1234567890abcdef12345678'' @ str '' at ''
                      @ str ''90.00'' @ str ''%'')],
              alertPromises =
                [sendTelegramAlert env_complete
                   (msg (str ''0x1234567890abcdef1234567890abcdef12345678'') (str ''90.00''))
                   (net_ok 0),
                 sendTwilioSMS env_complete
                   (msg (str ''0x1234567890abcdef1234567890abcdef12345678'') (str ''90.00''))
                   (net_ok 1)]\<rparr>"
    using check_user_above[OF r _ t, of env_complete net_ok start]
    by (simp add: signed_def start_def position_def)
qed

theorem only_zero_collateral_is_skipped_witness:
  "parseFloat (str ''-1000000'') = Finite True 1000000
   \<and> \<not> strict_equals (Finite True 1000000) (Finite False 0)
   \<and> risk (position (str ''-1000000'') (str ''-900000'')) \<noteq> None
   \<and> flagged (position (str ''-1000000'') (str ''-900000''))
   \<and> check_user env_complete net_ok start (position (str ''-1000000'') (str ''-900000''))
       \<noteq> Inr start"
proof -
  let ?u = "position (str ''-1000000'') (str ''-900000'')"
  have c: "parseFloat (totalCollateralBase ?u) = Finite True 1000000"
    by (simp add: position_def parse_neg_1000000)
  have d: "parseFloat (totalDebtBase ?u) = Finite True 900000"
    by (simp add: position_def parse_neg_900000)
  have z: "\<not> strict_equals (parseFloat (totalCollateralBase ?u)) (Finite False 0)"
    using c by (simp add: signed_def)
  note T = only_zero_collateral_is_skipped
  from T [THEN conjunct1, rule_format, of ?u] z have 1: "risk ?u \<noteq> None" by simp
  from T [THEN conjunct2, THEN conjunct1, rule_format, of True 1000000]
  have 0: "\<not> strict_equals (Finite True 1000000) (Finite False 0)" by simp
  from T [THEN conjunct2, THEN conjunct2, THEN conjunct1, rule_format, OF z,
      of env_complete net_ok start]
  have "flagged ?u \<and> (flagged ?u \<longleftrightarrow> check_user env_complete net_ok start ?u \<noteq> Inr start)"
    by (auto simp add: c d ratio_neg_90 signed_def simp del: js_div.simps js_mul.simps)
  then have 2: "flagged ?u" "check_user env_complete net_ok start ?u \<noteq> Inr start"
    by blast+
  from 0 1 2 show ?thesis by (simp add: parse_neg_1000000)
qed

section \<open>Properties of the senders\<close>

lemma sendTelegramAlert_fulfilled: "settled (sendTelegramAlert env m rp) = Inr ()"
  by (simp add: sendTelegramAlert_def Let_def)

lemma sendTelegramAlert_fetched:
  "fetched (sendTelegramAlert env m rp) =
     (if truthy (TELEGRAM_BOT_TOKEN env) \<and> truthy (TELEGRAM_CHAT_ID env)
      then [\<lparr>req_url = str ''https://api.telegram.org/bot'' @ to_string (TELEGRAM_BOT_TOKEN env)
                        @ str ''/sendMessage'',
              req_method = str ''POST'',
              req_headers = [(str ''Content-Type'', str ''application/json'')],
              req_body = Json [(str ''chat_id'', to_string (TELEGRAM_CHAT_ID env)),
                               (str ''text'', siren @ str '' '' @ m),
                               (str ''parse_mode'', str ''HTML'')]\<rparr>]
      else [])"
  by (simp add: sendTelegramAlert_def Let_def)

lemma sendTwilioSMS_settled:
  "settled (sendTwilioSMS env m rp) =
     (if truthy (TWILIO_ACCOUNT_SID env) \<and> truthy (TWILIO_AUTH_TOKEN env)
         \<and> truthy (TWILIO_TO_NUMBER env)
         \<and> list_ex (\<lambda>c. 0xFF < c)
              (to_string (TWILIO_ACCOUNT_SID env) @ str '':'' @ to_string (TWILIO_AUTH_TOKEN env))
      then Inl InvalidCharacterError else Inr ())"
  by (simp add: sendTwilioSMS_def Let_def btoa_def)

lemma sendTwilioSMS_fetched:
  "fetched (sendTwilioSMS env m rp) = [r] \<Longrightarrow>
   req_body r = Form [(str ''To'', to_string (TWILIO_TO_NUMBER env)),
                      (str ''MessagingServiceSid'', to_string (TWILIO_MESSAGING_SERVICE_SID env)),
                      (str ''Body'', siren @ str '' '' @ m)]"
  by (auto simp: sendTwilioSMS_def Let_def split: if_splits sum.splits)

lemma keys_differ:
  "str ''chat_id'' \<noteq> str ''text''" "str ''chat_id'' \<noteq> str ''parse_mode''"
  "str ''text'' \<noteq> str ''parse_mode''" "str ''To'' \<noteq> str ''Body''"
  "str ''MessagingServiceSid'' \<noteq> str ''Body''"
  by code_simp+

lemma truthy_complete:
  "truthy (TELEGRAM_BOT_TOKEN env_complete)" "truthy (TELEGRAM_CHAT_ID env_complete)"
  "truthy (TWILIO_ACCOUNT_SID env_complete)" "truthy (TWILIO_AUTH_TOKEN env_complete)"
  "truthy (TWILIO_MESSAGING_SERVICE_SID env_complete)" "truthy (TWILIO_TO_NUMBER env_complete)"
  by code_simp+

lemma btoa_complete:
  "btoa (to_string (TWILIO_ACCOUNT_SID env_complete) @ str '':''
         @ to_string (TWILIO_AUTH_TOKEN env_complete)) = Inr (str ''QUMxOnRvaw=='')"
  by code_simp

lemma risk_markup: "risk position_markup = Some (Finite False 90)"
  by (simp add: risk_def position_markup_def parse_1000000 parse_900000 ratio_90 signed_def
      del: js_div.simps js_mul.simps)

lemma msg_markup:
  "msg (id' position_markup) (str ''90.00'')
   = str ''High LTV Alert! Wallet <b>&x... is at 90.00% LTV.''"
  by code_simp

text \<open>
  C9, as the specification states it, fails on a position whose identifier holds markup
  characters: the \<open>text\<close> field of the chat-bot body is the alarm sign, a space and the
  message as it is, not its HTML-escaped form.
\<close>

theorem markup_not_escaped_counterexample:
  "check_user env_complete net_ok start position_markup
     = Inr \<lparr>console =
              [Log (str ''[Alert] '' @ [0x26A0, 0xFE0F] @ str '' High LTV found: ''
                    @ str ''<b>&x'' @ str '' at '' @ str ''90.00'' @ str ''%'')],
            alertPromises =
              [sendTelegramAlert env_complete
                 (str ''High LTV Alert! Wallet <b>&x... is at 90.00% LTV.'') (net_ok 0),
               sendTwilioSMS env_complete
                 (str ''High LTV Alert! Wallet <b>&x... is at 90.00% LTV.'') (net_ok 1)]\<rparr>
   \<and> map (\<lambda>r. field (str ''text'') (req_body r))
         (fetched (sendTelegramAlert env_complete
            (str ''High LTV Alert! Wallet <b>&x... is at 90.00% LTV.'') (net_ok 0)))
       = [Some (siren @ str '' High LTV Alert! Wallet <b>&x... is at 90.00% LTV.'')]
   \<and> html_escape (str ''High LTV Alert! Wallet <b>&x... is at 90.00% LTV.'')
       = str ''High LTV Alert! Wallet &lt;b&gt;&amp;x... is at 90.00% LTV.''
   \<and> siren @ str '' High LTV Alert! Wallet <b>&x... is at 90.00% LTV.''
       \<noteq> siren @ str '' ''
          @ html_escape (str ''High LTV Alert! Wallet <b>&x... is at 90.00% LTV.'')"
proof (intro conjI)
  have t: "toFixed (Finite False 90) 2 = Inr (str ''90.00'')"
    by (simp add: toFixed_two_finite two_decimals_90)
  have i: "id' position_markup = str ''<b>&x''" by (simp add: position_markup_def)
  show "check_user env_complete net_ok start position_markup
     = Inr \<lparr>console =
              [Log (str ''[Alert] '' @ [0x26A0, 0xFE0F] @ str '' High LTV found: ''
                    @ str ''<b>&x'' @ str '' at '' @ str ''90.00'' @ str ''%'')],
            alertPromises =
              [sendTelegramAlert env_complete
                 (str ''High LTV Alert! Wallet <b>&x... is at 90.00% LTV.'') (net_ok 0),
               sendTwilioSMS env_complete
                 (str ''High LTV Alert! Wallet <b>&x... is at 90.00% LTV.'') (net_ok 1)]\<rparr>"
    using check_user_above[OF risk_markup _ t, of env_complete net_ok start]
    by (simp add: signed_def start_def msg_markup) (simp add: i)
  show "map (\<lambda>r. field (str ''text'') (req_body r))
         (fetched (sendTelegramAlert env_complete
            (str ''High LTV Alert! Wallet <b>&x... is at 90.00% LTV.'') (net_ok 0)))
       = [Some (siren @ str '' High LTV Alert! Wallet <b>&x... is at 90.00% LTV.'')]"
    using keys_differ
    by (simp add: sendTelegramAlert_fetched truthy_complete field_def) (simp add: str_def)
  show "html_escape (str ''High LTV Alert! Wallet <b>&x... is at 90.00% LTV.'')
       = str ''High LTV Alert! Wallet &lt;b&gt;&amp;x... is at 90.00% LTV.''"
    by code_simp
  show "siren @ str '' High LTV Alert! Wallet <b>&x... is at 90.00% LTV.''
       \<noteq> siren @ str '' ''
          @ html_escape (str ''High LTV Alert! Wallet <b>&x... is at 90.00% LTV.'')"
    by code_simp
qed

text \<open>
  C9, amended. For every message, when both senders issue their request, the \<open>text\<close>
  field of the chat-bot body and the \<open>Body\<close> field of the SMS form are the same string,
  the alarm sign, a space and the message, unescaped on both channels; the chat-bot body
  carries \<open>parse_mode\<close> \<open>HTML\<close>.
\<close>

theorem same_text_on_both_channels:
  assumes "fetched (sendTelegramAlert env m rp) = [r]"
    and "fetched (sendTwilioSMS env m rp') = [r']"
  shows "field (str ''text'') (req_body r) = Some (siren @ str '' '' @ m)
         \<and> field (str ''parse_mode'') (req_body r) = Some (str ''HTML'')
         \<and> field (str ''Body'') (req_body r') = Some (siren @ str '' '' @ m)"
proof -
  have "req_body r = Json [(str ''chat_id'', to_string (TELEGRAM_CHAT_ID env)),
                           (str ''text'', siren @ str '' '' @ m),
                           (str ''parse_mode'', str ''HTML'')]"
    using assms(1) by (auto simp: sendTelegramAlert_fetched split: if_splits)
  moreover note sendTwilioSMS_fetched[OF assms(2)]
  ultimately show ?thesis
    using keys_differ by (simp add: field_def)
qed

theorem same_text_on_both_channels_witness:
  "fetched (sendTelegramAlert env_complete (str ''a<b'') (net_ok 0))
     = [\<lparr>req_url = str ''https://api.telegram.org/bot'' @ str ''123:abc'' @ str ''/sendMessage'',
         req_method = str ''POST'',
         req_headers = [(str ''Content-Type'', str ''application/json'')],
         req_body = Json [(str ''chat_id'', str ''42''),
                          (str ''text'', siren @ str '' '' @ str ''a<b''),
                          (str ''parse_mode'', str ''HTML'')]\<rparr>]
   \<and> fetched (sendTwilioSMS env_complete (str ''a<b'') (net_ok 0))
     = [\<lparr>req_url = str ''https://api.twilio.com/2010-04-01/Accounts/'' @ str ''AC1''
                    @ str ''/Messages.json'',
         req_method = str ''POST'',
         req_headers = [(str ''Authorization'', str ''Basic '' @ str ''QUMxOnRvaw==''),
                        (str ''Content-Type'', str ''application/x-www-form-urlencoded'')],
         req_body = Form [(str ''To'', str ''+15550100''),
                          (str ''MessagingServiceSid'', str ''MG1''),
                          (str ''Body'', siren @ str '' '' @ str ''a<b'')]\<rparr>]
   \<and> field (str ''text'') (Json [(str ''chat_id'', str ''42''),
                          (str ''text'', siren @ str '' '' @ str ''a<b''),
                          (str ''parse_mode'', str ''HTML'')]) = Some (siren @ str '' '' @ str ''a<b'')
   \<and> field (str ''Body'') (Form [(str ''To'', str ''+15550100''),
                          (str ''MessagingServiceSid'', str ''MG1''),
                          (str ''Body'', siren @ str '' '' @ str ''a<b'')])
       = Some (siren @ str '' '' @ str ''a<b'')"
proof -
  have v: "to_string (TELEGRAM_BOT_TOKEN env_complete) = str ''123:abc''"
    "to_string (TELEGRAM_CHAT_ID env_complete) = str ''42''"
    "to_string (TWILIO_ACCOUNT_SID env_complete) = str ''AC1''"
    "to_string (TWILIO_TO_NUMBER env_complete) = str ''+15550100''"
    "to_string (TWILIO_MESSAGING_SERVICE_SID env_complete) = str ''MG1''"
    by (simp_all add: env_complete_def to_string_def)
  have t: "fetched (sendTelegramAlert env_complete (str ''a<b'') (net_ok 0))
     = [\<lparr>req_url = str ''https://api.telegram.org/bot'' @ str ''123:abc'' @ str ''/sendMessage'',
         req_method = str ''POST'',
         req_headers = [(str ''Content-Type'', str ''application/json'')],
         req_body = Json [(str ''chat_id'', str ''42''),
                          (str ''text'', siren @ str '' '' @ str ''a<b''),
                          (str ''parse_mode'', str ''HTML'')]\<rparr>]"
    by (simp add: sendTelegramAlert_fetched truthy_complete v)
  have s: "fetched (sendTwilioSMS env_complete (str ''a<b'') (net_ok 0))
     = [\<lparr>req_url = str ''https://api.twilio.com/2010-04-01/Accounts/'' @ str ''AC1''
                    @ str ''/Messages.json'',
         req_method = str ''POST'',
         req_headers = [(str ''Authorization'', str ''Basic '' @ str ''QUMxOnRvaw==''),
                        (str ''Content-Type'', str ''application/x-www-form-urlencoded'')],
         req_body = Form [(str ''To'', str ''+15550100''),
                          (str ''MessagingServiceSid'', str ''MG1''),
                          (str ''Body'', siren @ str '' '' @ str ''a<b'')]\<rparr>]"
    by (simp add: sendTwilioSMS_def Let_def truthy_complete btoa_complete)
       (simp add: v)
  show ?thesis
    using same_text_on_both_channels [OF t s] by (simp add: t s)
qed

text \<open>
  C4 fails on a configuration whose account id holds a code unit above 255, here the
  zero-width space of \<open>env_pasted\<close>: \<open>btoa\<close> is called before the \<open>try\<close> block of
  \<open>sendTwilioSMS\<close>, so its error rejects the promise of the sender, for every message and
  whatever the provider would have answered. With \<open>env_complete\<close> the same call is
  fulfilled.
\<close>

theorem twilio_rejects_on_wide_character:
  "settled (sendTwilioSMS env_pasted m rp) = Inl InvalidCharacterError
   \<and> fetched (sendTwilioSMS env_pasted m rp) = []
   \<and> logged (sendTwilioSMS env_pasted m rp) = []
   \<and> settled (sendTwilioSMS env_complete m rp) = Inr ()"
proof -
  have t: "truthy (TWILIO_ACCOUNT_SID env_pasted)" "truthy (TWILIO_AUTH_TOKEN env_pasted)"
    "truthy (TWILIO_TO_NUMBER env_pasted)"
    by code_simp+
  have b: "btoa (to_string (TWILIO_ACCOUNT_SID env_pasted) @ str '':''
                 @ to_string (TWILIO_AUTH_TOKEN env_pasted)) = Inl InvalidCharacterError"
    by code_simp
  have "settled (sendTwilioSMS env_complete m rp) = Inr ()"
    by (simp add: sendTwilioSMS_def Let_def truthy_complete btoa_complete)
  then show ?thesis
    by (simp add: sendTwilioSMS_def[of env_pasted] Let_def t b)
qed

theorem twilio_rejects_on_wide_character_witness:
  "settled (sendTwilioSMS env_pasted (str ''High LTV Alert!'') (net_500 0))
     = Inl InvalidCharacterError
   \<and> settled (sendTwilioSMS env_complete (str ''High LTV Alert!'') (net_500 0)) = Inr ()"
  using twilio_rejects_on_wide_character [of "str ''High LTV Alert!''" "net_500 0"]
  by simp

text \<open>
  C5 fails on a configuration without the destination phone number: the health route
  reports the SMS channel as configured, while \<open>sendTwilioSMS\<close> skips with its warning.
  The route tests the messaging-service id instead, which the sender does not require.
\<close>

theorem health_ignores_phone_number:
  "twilio (api_health env_no_number now)
   \<and> fetched (sendTwilioSMS env_no_number m rp) = []
   \<and> logged (sendTwilioSMS env_no_number m rp)
       = [Warn (str ''[Twilio] '' @ [0x26A0, 0xFE0F]
                @ str '' Missing Twilio credentials or phone number'')]
   \<and> \<not> twilio (api_health env_no_service now)
   \<and> length (fetched (sendTwilioSMS env_no_service m rp)) = 1"
proof -
  have a: "truthy (TWILIO_ACCOUNT_SID env_no_number)" "truthy (TWILIO_AUTH_TOKEN env_no_number)"
    "truthy (TWILIO_MESSAGING_SERVICE_SID env_no_number)"
    "\<not> truthy (TWILIO_TO_NUMBER env_no_number)"
    by code_simp+
  have b: "truthy (TWILIO_ACCOUNT_SID env_no_service)" "truthy (TWILIO_AUTH_TOKEN env_no_service)"
    "\<not> truthy (TWILIO_MESSAGING_SERVICE_SID env_no_service)"
    "truthy (TWILIO_TO_NUMBER env_no_service)"
    by code_simp+
  have c: "btoa (to_string (TWILIO_ACCOUNT_SID env_no_service) @ str '':''
                 @ to_string (TWILIO_AUTH_TOKEN env_no_service)) = Inr (str ''QUMxOnRvaw=='')"
    by code_simp
  show ?thesis
    by (simp add: api_health_def sendTwilioSMS_def Let_def a b c)
qed

theorem health_ignores_phone_number_witness:
  "twilio (api_health env_no_number (str ''2026-01-01T00:00:00.000Z''))
   \<and> fetched (sendTwilioSMS env_no_number (str ''High LTV Alert!'') (net_ok 0)) = []
   \<and> length (fetched (sendTwilioSMS env_no_service (str ''High LTV Alert!'') (net_ok 0))) = 1"
  using health_ignores_phone_number [of "str ''2026-01-01T00:00:00.000Z''"
      "str ''High LTV Alert!''" "net_ok 0"]
  by simp

section \<open>Properties of the pipeline\<close>

lemma check_user_returns: "\<exists>st'. check_user env net st user = Inr st'"
proof (cases "risk user")
  case None
  then show ?thesis by (simp add: check_user_skip)
next
  case (Some ltv)
  obtain pct where "toFixed ltv 2 = Inr pct" using toFixed_two by blast
  with Some show ?thesis
    by (cases "js_gt ltv (Finite False 85)") (simp_all add: check_user_def Let_def)
qed

lemma check_users_returns: "\<exists>st'. check_users env net st users = Inr st'"
proof (induction users arbitrary: st)
  case Nil
  show ?case by simp
next
  case (Cons user users)
  obtain st1 where "check_user env net st user = Inr st1"
    using check_user_returns by blast
  with Cons show ?case by simp
qed

lemma check_user_queue:
  assumes "check_user env net st user = Inr st'"
  shows "alertPromises st' =
           alertPromises st
           @ dispatch env net (length (alertPromises st)) (List.map_filter alert_of [user])"
proof (cases "risk user")
  case None
  with assms show ?thesis
    by (simp add: check_user_skip alert_of_def List.map_filter_simps)
next
  case (Some ltv)
  obtain pct where p: "toFixed ltv 2 = Inr pct" using toFixed_two by blast
  show ?thesis
  proof (cases "js_gt ltv (Finite False 85)")
    case True
    with assms Some p show ?thesis
      using check_user_above[OF Some True p, of env net st]
      by (auto simp: alert_of_def List.map_filter_simps)
  next
    case False
    with assms Some show ?thesis
      using check_user_below[OF Some False, of env net st]
      by (simp add: alert_of_def List.map_filter_simps)
  qed
qed

lemma check_users_queue:
  assumes "check_users env net st users = Inr st'"
  shows "alertPromises st' =
           alertPromises st
           @ dispatch env net (length (alertPromises st)) (List.map_filter alert_of users)"
  using assms
proof (induction users arbitrary: st)
  case Nil
  then show ?case by (simp add: List.map_filter_simps)
next
  case (Cons user users)
  obtain st1 where 1: "check_user env net st user = Inr st1"
    using check_user_returns by blast
  with Cons.prems have 2: "check_users env net st1 users = Inr st'" by simp
  show ?case
    using Cons.IH[OF 2] check_user_queue[OF 1]
    by (cases "alert_of user") (simp_all add: List.map_filter_simps)
qed

lemma sends_check_positions:
  "sends (check_positions env net users) = dispatch env net 0 (List.map_filter alert_of users)"
proof -
  let ?st0 = "\<lparr>console = [Log (str ''[Monitor] '' @ [0xD83D, 0xDD0D]
                                  @ str '' Using MOCK data - ''
                                  @ decimal_digits (int (length users))
                                  @ str '' test borrowers.'')],
                 alertPromises = []\<rparr>"
  obtain st where s: "check_users env net ?st0 users = Inr st"
    using check_users_returns by blast
  from check_users_queue[OF s] have "alertPromises st = dispatch env net 0 (List.map_filter alert_of users)"
    by simp
  then show ?thesis
    using s by (simp add: check_positions_def Let_def split: prod.split sum.split)
qed

lemma alert_of_flagged: "alert_of user \<noteq> None \<longleftrightarrow> flagged user"
proof (cases "risk user")
  case None
  then show ?thesis by (simp add: alert_of_def flagged_def)
next
  case (Some ltv)
  obtain pct where "toFixed ltv 2 = Inr pct" using toFixed_two by blast
  with Some show ?thesis by (simp add: alert_of_def flagged_def)
qed

lemma length_alerts:
  "length (List.map_filter alert_of users) = length (filter flagged users)"
proof (induction users)
  case Nil
  show ?case by (simp add: List.map_filter_simps)
next
  case (Cons user users)
  then show ?case
    using alert_of_flagged[of user]
    by (cases "alert_of user") (simp_all add: List.map_filter_simps)
qed

lemma length_dispatch: "length (dispatch env net n ms) = 2 * length ms"
  by (induction ms arbitrary: n) simp_all

lemma two_sender_calls_per_flagged_position:
  "length (sends (check_positions env net users)) = 2 * length (filter flagged users)"
  by (simp add: sends_check_positions length_dispatch length_alerts)

subsection \<open>Promise.all\<close>

lemma settled_at_le_latest: "p \<in> set ps \<Longrightarrow> settled_at p \<le> foldr max (map settled_at ps) 0"
  by (induction ps) auto

lemma promise_all_fulfilled:
  "filter rejected ps = [] \<Longrightarrow> promise_all ps = (Inr (), foldr max (map settled_at ps) 0)"
  by (simp add: promise_all_def)

lemma promise_all_rejected:
  "filter rejected ps \<noteq> [] \<Longrightarrow> \<exists>e t. promise_all ps = (Inl e, t)"
proof -
  assume "filter rejected ps \<noteq> []"
  then obtain r rs where f: "filter rejected ps = r # rs" by (cases "filter rejected ps") auto
  define p where "p = foldl (\<lambda>b q. if settled_at q < settled_at b then q else b) r rs"
  have "set (r # rs) = {x \<in> set ps. rejected x}"
    using f by (metis set_filter)
  then have "\<forall>q \<in> set (r # rs). rejected q" by blast
  then have "rejected r" "\<forall>q \<in> set rs. rejected q" by simp_all
  then have "rejected p" unfolding p_def
    by (induction rs arbitrary: r) simp_all
  then obtain e where "settled p = Inl e"
    by (auto simp: rejected_def split: sum.splits)
  then show ?thesis using f by (simp add: promise_all_def p_def Let_def)
qed

lemma dispatch_not_rejected:
  "encodable env \<Longrightarrow> p \<in> set (dispatch env net n ms) \<Longrightarrow> \<not> rejected p"
  by (induction ms arbitrary: n)
     (auto simp: rejected_def sendTelegramAlert_fulfilled sendTwilioSMS_settled encodable_def)

lemma dispatcher_waits_for_every_send:
  assumes "encodable env"
  shows "awaited (check_positions env net users) = Some (Inr ())
         \<and> (\<forall>p \<in> set (sends (check_positions env net users)).
              settled p = Inr () \<and> settled_at p \<le> finished_at (check_positions env net users))"
proof -
  let ?st0 = "\<lparr>console = [Log (str ''[Monitor] '' @ [0xD83D, 0xDD0D]
                                  @ str '' Using MOCK data - ''
                                  @ decimal_digits (int (length users))
                                  @ str '' test borrowers.'')],
                 alertPromises = []\<rparr>"
  obtain st where s: "check_users env net ?st0 users = Inr st"
    using check_users_returns by blast
  have q: "alertPromises st = dispatch env net 0 (List.map_filter alert_of users)"
    using check_users_queue[OF s] by simp
  have n: "\<forall>p \<in> set (alertPromises st). \<not> rejected p"
    using dispatch_not_rejected[OF assms] q by simp
  then have "filter rejected (alertPromises st) = []" by (simp add: filter_empty_conv)
  then have a: "promise_all (alertPromises st)
                = (Inr (), foldr max (map settled_at (alertPromises st)) 0)"
    by (rule promise_all_fulfilled)
  have r: "check_positions env net users =
      \<lparr>printed = console st
          @ (if length (alertPromises st) = 0
             then [Log (str ''[Monitor] '' @ [0x2705]
                        @ str '' No high LTV positions detected.'')]
             else []),
       sends = alertPromises st, awaited = Some (Inr ()),
       finished_at = foldr max (map settled_at (alertPromises st)) 0,
       result = Inr ()\<rparr>"
    using s a by (simp add: check_positions_def Let_def)
  have "settled p = Inr ()" if "p \<in> set (alertPromises st)" for p
    using n that by (cases "settled p") (auto simp: rejected_def)
  then show ?thesis
    by (simp add: r settled_at_le_latest)
qed

lemma alerts_mock:
  "List.map_filter alert_of mockUsers
   = [str ''High LTV Alert! Wallet 0x1234...5678 is at 90.00% LTV.'',
      str ''High LTV Alert! Wallet 0xabcd...ef12 is at 90.00% LTV.'']"
  by code_simp

lemma pasted_telegram:
  "settled (sendTelegramAlert env_pasted m (net_ok n)) = Inr ()"
  "settled_at (sendTelegramAlert env_pasted m (net_ok n)) = 5"
  "length (fetched (sendTelegramAlert env_pasted m (net_ok n))) = 1"
proof -
  have t: "truthy (TELEGRAM_BOT_TOKEN env_pasted)" "truthy (TELEGRAM_CHAT_ID env_pasted)"
    by code_simp+
  show "settled (sendTelegramAlert env_pasted m (net_ok n)) = Inr ()"
    "settled_at (sendTelegramAlert env_pasted m (net_ok n)) = 5"
    "length (fetched (sendTelegramAlert env_pasted m (net_ok n))) = 1"
    by (simp_all add: sendTelegramAlert_def Let_def t net_ok_def)
qed

lemma pasted_twilio:
  "sendTwilioSMS env_pasted m rp
   = \<lparr>logged = [], fetched = [], settled = Inl InvalidCharacterError, settled_at = 0\<rparr>"
proof -
  have t: "truthy (TWILIO_ACCOUNT_SID env_pasted)" "truthy (TWILIO_AUTH_TOKEN env_pasted)"
    "truthy (TWILIO_TO_NUMBER env_pasted)"
    by code_simp+
  have b: "btoa (to_string (TWILIO_ACCOUNT_SID env_pasted) @ str '':''
                 @ to_string (TWILIO_AUTH_TOKEN env_pasted)) = Inl InvalidCharacterError"
    by code_simp
  show ?thesis by (simp add: sendTwilioSMS_def Let_def t b)
qed

lemma pasted_run:
  "\<exists>out. checkHealthFactors env_pasted net_ok =
      \<lparr>printed = out
          @ [Error (str ''[Error] Failed to fetch or process data:'')
               (Thrown InvalidCharacterError)],
       sends =
         [sendTelegramAlert env_pasted
            (str ''High LTV Alert! Wallet 0x1234...5678 is at 90.00% LTV.'') (net_ok 0),
          \<lparr>logged = [], fetched = [], settled = Inl InvalidCharacterError, settled_at = 0\<rparr>,
          sendTelegramAlert env_pasted
            (str ''High LTV Alert! Wallet 0xabcd...ef12 is at 90.00% LTV.'') (net_ok 2),
          \<lparr>logged = [], fetched = [], settled = Inl InvalidCharacterError, settled_at = 0\<rparr>],
       awaited = Some (Inl InvalidCharacterError), finished_at = 0,
       result = Inr ()\<rparr>"
proof -
  let ?m1 = "str ''High LTV Alert! Wallet 0x1234...5678 is at 90.00% LTV.''"
  let ?m2 = "str ''High LTV Alert! Wallet 0xabcd...ef12 is at 90.00% LTV.''"
  let ?x = "\<lparr>logged = [], fetched = [], settled = Inl InvalidCharacterError, settled_at = 0\<rparr>"
  let ?ps = "[sendTelegramAlert env_pasted ?m1 (net_ok 0), ?x,
              sendTelegramAlert env_pasted ?m2 (net_ok 2), ?x]"
  let ?st0 = "\<lparr>console = [Log (str ''[Monitor] '' @ [0xD83D, 0xDD0D]
                                  @ str '' Using MOCK data - ''
                                  @ decimal_digits (int (length mockUsers))
                                  @ str '' test borrowers.'')],
                 alertPromises = []\<rparr>"
  obtain st where s: "check_users env_pasted net_ok ?st0 mockUsers = Inr st"
    using check_users_returns by blast
  have q: "alertPromises st = ?ps"
    using check_users_queue[OF s]
    by (simp add: alerts_mock pasted_twilio numeral_2_eq_2)
  have a: "promise_all ?ps = (Inl InvalidCharacterError, 0)"
    by (simp add: promise_all_def rejected_def pasted_telegram)
  show ?thesis
    using s a q by (simp add: checkHealthFactors_def check_positions_def Let_def)
qed

text \<open>
  C3 fails on the configuration \<open>env_pasted\<close>, by the defect of C4: the two calls of
  \<open>sendTwilioSMS\<close> are rejected at once, \<open>Promise.all\<close> is rejected with them, the error
  leaves the dispatcher for the \<open>catch\<close> of the pipeline, and the run is over at time 0
  while the two chat-bot requests it issued settle at time 5.
\<close>

theorem run_ends_before_sends_settle:
  "map settled (sends (checkHealthFactors env_pasted net_ok))
     = [Inr (), Inl InvalidCharacterError, Inr (), Inl InvalidCharacterError]
   \<and> map (\<lambda>p. length (fetched p)) (sends (checkHealthFactors env_pasted net_ok)) = [1, 0, 1, 0]
   \<and> map settled_at (sends (checkHealthFactors env_pasted net_ok)) = [5, 0, 5, 0]
   \<and> awaited (checkHealthFactors env_pasted net_ok) = Some (Inl InvalidCharacterError)
   \<and> finished_at (checkHealthFactors env_pasted net_ok) = 0
   \<and> last (printed (checkHealthFactors env_pasted net_ok))
       = Error (str ''[Error] Failed to fetch or process data:'') (Thrown InvalidCharacterError)"
proof -
  obtain out where "checkHealthFactors env_pasted net_ok =
      \<lparr>printed = out
          @ [Error (str ''[Error] Failed to fetch or process data:'')
               (Thrown InvalidCharacterError)],
       sends =
         [sendTelegramAlert env_pasted
            (str ''High LTV Alert! Wallet 0x1234...5678 is at 90.00% LTV.'') (net_ok 0),
          \<lparr>logged = [], fetched = [], settled = Inl InvalidCharacterError, settled_at = 0\<rparr>,
          sendTelegramAlert env_pasted
            (str ''High LTV Alert! Wallet 0xabcd...ef12 is at 90.00% LTV.'') (net_ok 2),
          \<lparr>logged = [], fetched = [], settled = Inl InvalidCharacterError, settled_at = 0\<rparr>],
       awaited = Some (Inl InvalidCharacterError), finished_at = 0,
       result = Inr ()\<rparr>"
    using pasted_run by blast
  then show ?thesis
    by (simp add: pasted_telegram)
qed

section \<open>The trigger surface\<close>

text \<open>
  C8. Whatever the configuration and the providers' replies, the promise of the pipeline is
  fulfilled, the manual trigger answers with its acknowledgement and status 200, and the
  run handed to the scheduler is fulfilled as well; an error that reaches the \<open>await\<close> of
  the pipeline is the last thing it logs.
\<close>

theorem pipeline_never_throws:
  "result (check_positions env net users) = Inr ()
   \<and> result (checkHealthFactors env net) = Inr ()
   \<and> snd (snd (api_test env net))
       = Inr \<lparr>http_status = 200,
              http_json = [(str ''message'',
                            str ''Manual check completed. Check logs with '' @ [0x60]
                            @ str ''npm run tail'' @ [0x60])]\<rparr>
   \<and> result (snd (scheduled env net)) = Inr ()
   \<and> (\<forall>e. awaited (check_positions env net users) = Some (Inl e) \<longrightarrow>
          printed (check_positions env net users) \<noteq> []
          \<and> last (printed (check_positions env net users))
              = Error (str ''[Error] Failed to fetch or process data:'') (Thrown e))"
proof -
  have r: "result (check_positions env net us) = Inr ()" for us
    by (simp add: check_positions_def Let_def split: sum.split prod.split)
  have l: "\<forall>e. awaited (check_positions env net users) = Some (Inl e) \<longrightarrow>
          printed (check_positions env net users) \<noteq> []
          \<and> last (printed (check_positions env net users))
              = Error (str ''[Error] Failed to fetch or process data:'') (Thrown e)"
    by (simp add: check_positions_def Let_def split: sum.split prod.split)
  show ?thesis
    using l by (simp add: r api_test_def scheduled_def checkHealthFactors_def Let_def)
qed

theorem pipeline_never_throws_witness:
  "awaited (check_positions env_pasted net_ok mockUsers) = Some (Inl InvalidCharacterError)
   \<and> last (printed (check_positions env_pasted net_ok mockUsers))
       = Error (str ''[Error] Failed to fetch or process data:'') (Thrown InvalidCharacterError)
   \<and> result (check_positions env_pasted net_ok mockUsers) = Inr ()"
proof -
  have a: "awaited (check_positions env_pasted net_ok mockUsers)
           = Some (Inl InvalidCharacterError)"
    using pasted_run by (auto simp: checkHealthFactors_def)
  show ?thesis
    using pipeline_never_throws [of env_pasted net_ok mockUsers] a by simp
qed

end
